theory Spec2Isabelle
  imports Complex_Main "HOL-Library.Log_Nat"
begin

section \<open>Data model\<close>

text \<open>
  The cart state manager of \<^verbatim>\<open>src/contexts/CartContext.tsx\<close>. Identifiers are the
  uuid strings of the schema in \<^verbatim>\<open>supabase/migrations\<close>. A cart row's quantity is the
  \<^verbatim>\<open>integer\<close> column of \<^verbatim>\<open>cart_items\<close>; a product's price is the \<^verbatim>\<open>decimal(10,2)\<close>
  column of \<^verbatim>\<open>products\<close>, which reaches the component as a JavaScript number.
\<close>

type_synonym uuid = string

subsection \<open>JavaScript numbers\<close>

text \<open>
  A JavaScript number is an IEEE 754 binary64 value: a rational \<open>m * 2 ^ e\<close> with
  \<open>\<bar>m\<bar> < 2 ^ 53\<close> and \<open>- 1074 \<le> e \<le> 971\<close>, an infinity, or \<^verbatim>\<open>NaN\<close>. The two zeros are
  one value here: \<^verbatim>\<open>-0\<close> is falsy and is absorbed by \<^verbatim>\<open>+\<close> as \<^verbatim>\<open>+0\<close> is, and a sum
  that starts from \<^verbatim>\<open>+0\<close> never is \<^verbatim>\<open>-0\<close>.
\<close>

datatype number = Finite rat | PosInf | NegInf | NaN

text \<open>The exponent \<open>e\<close> with \<open>2 ^ e \<le> \<bar>x\<bar> < 2 ^ (e + 1)\<close>, for \<open>x\<close> other than 0.\<close>

definition binade :: "rat \<Rightarrow> int" where
  "binade x =
     (if 1 \<le> \<bar>x\<bar> then bitlen \<lfloor>\<bar>x\<bar>\<rfloor> - 1
      else - bitlen (\<lceil>1 / \<bar>x\<bar>\<rceil> - 1))"

text \<open>The nearest integer, a tie going to the even one.\<close>

definition round_half_even :: "rat \<Rightarrow> int" where
  "round_half_even x =
     (if x - of_int \<lfloor>x\<rfloor> < 1 / 2 then \<lfloor>x\<rfloor>
      else if 1 / 2 < x - of_int \<lfloor>x\<rfloor> then \<lfloor>x\<rfloor> + 1
      else if even \<lfloor>x\<rfloor> then \<lfloor>x\<rfloor> else \<lfloor>x\<rfloor> + 1)"

text \<open>
  The spacing of the doubles around \<open>x\<close>: 53 significant bits, and the fixed spacing
  \<open>2 ^ - 1074\<close> of the subnormal range below \<open>2 ^ - 1022\<close>.
\<close>

definition ulp_of :: "rat \<Rightarrow> rat" where
  "ulp_of x = power_int 2 (max (binade x) (- 1022) - 52)"

definition nearest :: "rat \<Rightarrow> rat" where
  "nearest x = of_int (round_half_even (x / ulp_of x)) * ulp_of x"

definition overflow :: rat where
  "overflow = 2 ^ 1024"

text \<open>Rounding to nearest, ties to even: the result of every arithmetic operation.\<close>

definition round_number :: "rat \<Rightarrow> number" where
  "round_number x =
     (if overflow \<le> nearest x then PosInf
      else if nearest x \<le> - overflow then NegInf
      else Finite (nearest x))"

text \<open>\<^verbatim>\<open>a * b\<close> and \<^verbatim>\<open>a + b\<close> on numbers.\<close>

fun fmul :: "number \<Rightarrow> number \<Rightarrow> number" where
  "fmul (Finite a) (Finite b) = round_number (a * b)"
| "fmul NaN _ = NaN"
| "fmul _ NaN = NaN"
| "fmul (Finite a) PosInf = (if a = 0 then NaN else if 0 < a then PosInf else NegInf)"
| "fmul (Finite a) NegInf = (if a = 0 then NaN else if 0 < a then NegInf else PosInf)"
| "fmul PosInf (Finite b) = (if b = 0 then NaN else if 0 < b then PosInf else NegInf)"
| "fmul NegInf (Finite b) = (if b = 0 then NaN else if 0 < b then NegInf else PosInf)"
| "fmul PosInf PosInf = PosInf"
| "fmul PosInf NegInf = NegInf"
| "fmul NegInf PosInf = NegInf"
| "fmul NegInf NegInf = PosInf"

fun fadd :: "number \<Rightarrow> number \<Rightarrow> number" where
  "fadd (Finite a) (Finite b) = round_number (a + b)"
| "fadd NaN _ = NaN"
| "fadd _ NaN = NaN"
| "fadd PosInf NegInf = NaN"
| "fadd NegInf PosInf = NaN"
| "fadd PosInf _ = PosInf"
| "fadd _ PosInf = PosInf"
| "fadd NegInf _ = NegInf"
| "fadd _ NegInf = NegInf"

text \<open>An integer read as a number: itself up to \<open>2 ^ 53\<close>, the nearest double beyond.\<close>

definition to_number :: "int \<Rightarrow> number" where
  "to_number n = round_number (of_int n)"

text \<open>A value that is a double: rounding leaves it as it is.\<close>

fun is_double :: "number \<Rightarrow> bool" where
  "is_double (Finite a) = (round_number a = Finite a)"
| "is_double _ = True"

subsection \<open>Rows\<close>

record product =
  product_key :: uuid
  name :: string
  price :: number
  stock_quantity :: int

record cart_item =
  item_id :: uuid
  user_id :: uuid
  product_id :: uuid
  quantity :: int
  product :: "product option"

text \<open>A thrown JavaScript \<^verbatim>\<open>Error\<close>, with its message.\<close>

datatype err = Error string

subsection \<open>The remote cart API\<close>

text \<open>
  \<^verbatim>\<open>api\<close> of \<^verbatim>\<open>lib/supabase\<close> is consumed by the component and is a parameter here. Each
  of its four functions is a request to the outside world \<open>'w\<close> (server and network):
  it answers with a result or a thrown error and leaves the world in a next state.
  \<^verbatim>\<open>getCartItems\<close> may answer \<^verbatim>\<open>null\<close> (\<open>None\<close>), which the component reads as the empty
  list.
\<close>

record 'w api =
  api_getCartItems :: "uuid \<Rightarrow> 'w \<Rightarrow> (err + cart_item list option) \<times> 'w"
  api_addToCart :: "uuid \<Rightarrow> uuid \<Rightarrow> int \<Rightarrow> 'w \<Rightarrow> (err + unit) \<times> 'w"
  api_updateCartItem :: "uuid \<Rightarrow> int \<Rightarrow> 'w \<Rightarrow> (err + unit) \<times> 'w"
  api_removeFromCart :: "uuid \<Rightarrow> 'w \<Rightarrow> (err + unit) \<times> 'w"

text \<open>The requests issued, in order, with their arguments.\<close>

datatype remote_call =
    Call_getCartItems uuid
  | Call_addToCart uuid uuid int
  | Call_updateCartItem uuid int
  | Call_removeFromCart uuid

subsection \<open>State\<close>

text \<open>
  \<open>items\<close> and \<open>loading\<close> are the two \<^verbatim>\<open>useState\<close> cells of \<^verbatim>\<open>CartProvider\<close>. The rest is
  what the component acts on: the outside world behind the API, the requests sent so
  far, and the lines written with \<^verbatim>\<open>console.error\<close>.
\<close>

record 'w sys =
  items :: "cart_item list"
  loading :: bool
  remote :: 'w
  calls :: "remote_call list"
  console :: "(string \<times> err) list"

text \<open>
  One \<^verbatim>\<open>async\<close> function from its call to its completion: it ends fulfilled (\<open>Inr\<close>)
  or rejected (\<open>Inl\<close>), in a new state. Operations are not serialised: the state an
  operation starts in may hold what another, still pending, has set.
\<close>

type_synonym ('a, 'w) prog = "'w sys \<Rightarrow> (err + 'a) \<times> 'w sys"

definition return_ok :: "'a \<Rightarrow> ('a, 'w) prog" where
  "return_ok x s = (Inr x, s)"

definition throw :: "err \<Rightarrow> ('a, 'w) prog" where
  "throw e s = (Inl e, s)"

text \<open>\<^verbatim>\<open>await p; f\<close>: a rejection of \<open>p\<close> skips \<open>f\<close>.\<close>

definition then_do :: "('a, 'w) prog \<Rightarrow> ('a \<Rightarrow> ('b, 'w) prog) \<Rightarrow> ('b, 'w) prog" where
  "then_do p f s = (case p s of (Inl e, s') \<Rightarrow> (Inl e, s') | (Inr x, s') \<Rightarrow> f x s')"

text \<open>\<^verbatim>\<open>try { p } catch (error) { h }\<close>\<close>

definition try_catch :: "('a, 'w) prog \<Rightarrow> (err \<Rightarrow> ('a, 'w) prog) \<Rightarrow> ('a, 'w) prog" where
  "try_catch p h s = (case p s of (Inl e, s') \<Rightarrow> h e s' | (Inr x, s') \<Rightarrow> (Inr x, s'))"

text \<open>
  \<^verbatim>\<open>try { p } finally { q }\<close>: \<open>q\<close> runs on both outcomes of \<open>p\<close>, and the outcome of \<open>p\<close>
  stands unless \<open>q\<close> itself throws.
\<close>

definition try_finally :: "('a, 'w) prog \<Rightarrow> (unit, 'w) prog \<Rightarrow> ('a, 'w) prog" where
  "try_finally p q s =
     (case p s of (r, s') \<Rightarrow>
        (case q s' of (Inl e, s'') \<Rightarrow> (Inl e, s'') | (Inr _, s'') \<Rightarrow> (r, s'')))"

definition setItems :: "cart_item list \<Rightarrow> (unit, 'w) prog" where
  "setItems xs s = (Inr (), s\<lparr>items := xs\<rparr>)"

definition setLoading :: "bool \<Rightarrow> (unit, 'w) prog" where
  "setLoading b s = (Inr (), s\<lparr>loading := b\<rparr>)"

definition console_error :: "string \<Rightarrow> err \<Rightarrow> (unit, 'w) prog" where
  "console_error msg e s = (Inr (), s\<lparr>console := console s @ [(msg, e)]\<rparr>)"

text \<open>A request: it is recorded, and the world moves on whatever the answer.\<close>

definition request :: "remote_call \<Rightarrow> ('w \<Rightarrow> (err + 'a) \<times> 'w) \<Rightarrow> ('a, 'w) prog" where
  "request c f s =
     (case f (remote s) of (r, w') \<Rightarrow> (r, s\<lparr>remote := w', calls := calls s @ [c]\<rparr>))"

definition getCartItems :: "'w api \<Rightarrow> uuid \<Rightarrow> (cart_item list option, 'w) prog" where
  "getCartItems api u = request (Call_getCartItems u) (api_getCartItems api u)"

definition remote_addToCart :: "'w api \<Rightarrow> uuid \<Rightarrow> uuid \<Rightarrow> int \<Rightarrow> (unit, 'w) prog" where
  "remote_addToCart api u p q = request (Call_addToCart u p q) (api_addToCart api u p q)"

definition updateCartItem :: "'w api \<Rightarrow> uuid \<Rightarrow> int \<Rightarrow> (unit, 'w) prog" where
  "updateCartItem api i q = request (Call_updateCartItem i q) (api_updateCartItem api i q)"

definition remote_removeFromCart :: "'w api \<Rightarrow> uuid \<Rightarrow> (unit, 'w) prog" where
  "remote_removeFromCart api i = request (Call_removeFromCart i) (api_removeFromCart api i)"

section \<open>The operations of \<^verbatim>\<open>CartProvider\<close>\<close>

text \<open>\<^verbatim>\<open>cartItems || []\<close>\<close>

definition or_empty :: "cart_item list option \<Rightarrow> cart_item list" where
  "or_empty r = (case r of None \<Rightarrow> [] | Some xs \<Rightarrow> xs)"

text \<open>
  The session user is \<^verbatim>\<open>user\<close> of \<^verbatim>\<open>useAuth()\<close>: \<open>None\<close> when nobody is signed in,
  otherwise \<^verbatim>\<open>user.id\<close>, the one field the component reads.
\<close>

definition refreshCart :: "'w api \<Rightarrow> uuid option \<Rightarrow> (unit, 'w) prog" where
  "refreshCart api user =
     (case user of
        None \<Rightarrow> setItems []
      | Some u \<Rightarrow>
          then_do (setLoading True) (\<lambda>_.
            try_finally
              (try_catch
                 (then_do (getCartItems api u) (\<lambda>cartItems. setItems (or_empty cartItems)))
                 (\<lambda>error. console_error ''Error fetching cart:'' error))
              (setLoading False)))"

text \<open>\<^verbatim>\<open>quantity: number = 1\<close>: an omitted argument is 1.\<close>

definition quantity_or_1 :: "int option \<Rightarrow> int" where
  "quantity_or_1 q = (case q of None \<Rightarrow> 1 | Some n \<Rightarrow> n)"

definition addToCart :: "'w api \<Rightarrow> uuid option \<Rightarrow> uuid \<Rightarrow> int option \<Rightarrow> (unit, 'w) prog" where
  "addToCart api user productId qty =
     (case user of
        None \<Rightarrow> throw (Error ''User must be logged in'')
      | Some u \<Rightarrow>
          then_do (setLoading True) (\<lambda>_.
            try_finally
              (try_catch
                 (then_do (remote_addToCart api u productId (quantity_or_1 qty))
                    (\<lambda>_. refreshCart api user))
                 (\<lambda>error. then_do (console_error ''Error adding to cart:'' error)
                    (\<lambda>_. throw error)))
              (setLoading False)))"

definition removeFromCart :: "'w api \<Rightarrow> uuid option \<Rightarrow> uuid \<Rightarrow> (unit, 'w) prog" where
  "removeFromCart api user itemId =
     then_do (setLoading True) (\<lambda>_.
       try_finally
         (try_catch
            (then_do (remote_removeFromCart api itemId) (\<lambda>_. refreshCart api user))
            (\<lambda>error. then_do (console_error ''Error removing from cart:'' error)
               (\<lambda>_. throw error)))
         (setLoading False))"

definition updateQuantity :: "'w api \<Rightarrow> uuid option \<Rightarrow> uuid \<Rightarrow> int \<Rightarrow> (unit, 'w) prog" where
  "updateQuantity api user itemId qty =
     (if qty \<le> 0 then removeFromCart api user itemId
      else
        then_do (setLoading True) (\<lambda>_.
          try_finally
            (try_catch
               (then_do (updateCartItem api itemId qty) (\<lambda>_. refreshCart api user))
               (\<lambda>error. then_do (console_error ''Error updating cart item:'' error)
                  (\<lambda>_. throw error)))
            (setLoading False)))"

definition clearCart :: "'w sys \<Rightarrow> 'w sys" where
  "clearCart s = s\<lparr>items := []\<rparr>"

text \<open>\<^verbatim>\<open>items.reduce((total, item) => total + item.quantity, 0)\<close>\<close>

definition getTotalItems :: "'w sys \<Rightarrow> int" where
  "getTotalItems s = foldl (\<lambda>total item. total + quantity item) 0 (items s)"

text \<open>
  \<^verbatim>\<open>item.product?.price || 0\<close>: \<^verbatim>\<open>undefined\<close> when the product is absent, and a price
  of 0 or \<^verbatim>\<open>NaN\<close> is falsy as well.
\<close>

definition price_or_0 :: "cart_item \<Rightarrow> number" where
  "price_or_0 item =
     (case product item of
        None \<Rightarrow> Finite 0
      | Some p \<Rightarrow> (if price p = Finite 0 \<or> price p = NaN then Finite 0 else price p))"

text \<open>
  \<^verbatim>\<open>items.reduce((total, item) => { ...; return total + (price * item.quantity); }, 0)\<close>:
  a product and a sum of numbers at every item, each rounded.
\<close>

definition getTotalPrice :: "'w sys \<Rightarrow> number" where
  "getTotalPrice s =
     foldl (\<lambda>total item. fadd total (fmul (price_or_0 item) (to_number (quantity item))))
       (Finite 0) (items s)"

text \<open>
  The sum of price times quantity in exact arithmetic, an item without a finite price
  counting 0.
\<close>

definition line_total :: "cart_item \<Rightarrow> rat" where
  "line_total item =
     (case price_or_0 item of Finite a \<Rightarrow> a * of_int (quantity item) | _ \<Rightarrow> 0)"

definition exact_total :: "'w sys \<Rightarrow> rat" where
  "exact_total s = sum_list (map line_total (items s))"

text \<open>
  Nothing is rounded when the items are added to the total \<open>t\<close>: every quantity, every
  product and every partial sum is a double as it stands.
\<close>

fun unrounded :: "rat \<Rightarrow> cart_item list \<Rightarrow> bool" where
  "unrounded t [] = True"
| "unrounded t (item # rest) =
     (case price_or_0 item of
        Finite a \<Rightarrow>
          to_number (quantity item) = Finite (of_int (quantity item))
          \<and> round_number (a * of_int (quantity item)) = Finite (a * of_int (quantity item))
          \<and> round_number (t + a * of_int (quantity item)) = Finite (t + a * of_int (quantity item))
          \<and> unrounded (t + a * of_int (quantity item)) rest
      | _ \<Rightarrow> False)"

text \<open>
  No drift, for user \<open>u\<close> in state \<open>s\<close>: a read issued now succeeds, and the local items
  are the sequence it returns.
\<close>

definition in_sync :: "'w api \<Rightarrow> uuid \<Rightarrow> 'w sys \<Rightarrow> bool" where
  "in_sync api u s =
     (case fst (api_getCartItems api u (remote s)) of
        Inl e \<Rightarrow> False
      | Inr r \<Rightarrow> items s = or_empty r)"

section \<open>Sessions\<close>

text \<open>
  What the component's callers start: the authentication provider changes \<^verbatim>\<open>user\<close>, on
  which \<^verbatim>\<open>useEffect(() => { refreshCart(); }, [user])\<close> refreshes, or a view calls one of
  the operations of the context value. A rejected promise is the caller's to handle; the
  state stays as the operation left it.
\<close>

datatype action =
    SessionChange "uuid option"
  | Refresh
  | Add uuid "int option"
  | Update uuid int
  | Remove uuid
  | Clear

fun dispatch :: "'w api \<Rightarrow> uuid option \<times> 'w sys \<Rightarrow> action \<Rightarrow> uuid option \<times> 'w sys" where
  "dispatch api (user, s) (SessionChange user') = (user', snd (refreshCart api user' s))"
| "dispatch api (user, s) Refresh = (user, snd (refreshCart api user s))"
| "dispatch api (user, s) (Add productId qty) = (user, snd (addToCart api user productId qty s))"
| "dispatch api (user, s) (Update itemId qty) = (user, snd (updateQuantity api user itemId qty s))"
| "dispatch api (user, s) (Remove itemId) = (user, snd (removeFromCart api user itemId s))"
| "dispatch api (user, s) Clear = (user, clearCart s)"

text \<open>\<^verbatim>\<open>useState<CartItem[]>([])\<close>, \<^verbatim>\<open>useState(false)\<close>, and nothing sent or logged yet.\<close>

definition initial :: "'w \<Rightarrow> 'w sys" where
  "initial w = \<lparr>items = [], loading = False, remote = w, calls = [], console = []\<rparr>"

section \<open>A scripted remote\<close>

text \<open>
  A stand-in for the remote, for the closed examples below: a table of cart rows behind
  a connection that drops a given number of the coming reads and writes. A read answers
  the rows of the user; adding replaces the row of the same user and product; updating
  and removing go by row id.
\<close>

record store =
  rows :: "cart_item list"
  read_faults :: nat
  write_faults :: nat

definition write_store :: "(cart_item list \<Rightarrow> cart_item list) \<Rightarrow> store \<Rightarrow> (err + unit) \<times> store" where
  "write_store f w =
     (if 0 < write_faults w
      then (Inl (Error ''request failed''), w\<lparr>write_faults := write_faults w - 1\<rparr>)
      else (Inr (), w\<lparr>rows := f (rows w)\<rparr>))"

definition read_store :: "uuid \<Rightarrow> store \<Rightarrow> (err + cart_item list option) \<times> store" where
  "read_store u w =
     (if 0 < read_faults w
      then (Inl (Error ''request failed''), w\<lparr>read_faults := read_faults w - 1\<rparr>)
      else (Inr (Some (filter (\<lambda>r. user_id r = u) (rows w))), w))"

definition new_row :: "uuid \<Rightarrow> uuid \<Rightarrow> int \<Rightarrow> cart_item" where
  "new_row u p q =
     \<lparr>item_id = ''row-'' @ p, user_id = u, product_id = p, quantity = q, product = None\<rparr>"

definition store_api :: "store api" where
  "store_api =
     \<lparr>api_getCartItems = read_store,
      api_addToCart = (\<lambda>u p q. write_store (\<lambda>rs.
         filter (\<lambda>r. \<not> (user_id r = u \<and> product_id r = p)) rs @ [new_row u p q])),
      api_updateCartItem = (\<lambda>i q. write_store (map (\<lambda>r. if item_id r = i then r\<lparr>quantity := q\<rparr> else r))),
      api_removeFromCart = (\<lambda>i. write_store (filter (\<lambda>r. item_id r \<noteq> i)))\<rparr>"

definition tea :: product where
  "tea = \<lparr>product_key = ''p-tea'', name = ''Tea'', price = Finite (5 / 2), stock_quantity = 40\<rparr>"

definition row_tea :: cart_item where
  "row_tea = \<lparr>item_id = ''row-p-tea'', user_id = ''ann'', product_id = ''p-tea'',
     quantity = 2, product = Some tea\<rparr>"

definition row_mug :: cart_item where
  "row_mug = \<lparr>item_id = ''row-p-mug'', user_id = ''ann'', product_id = ''p-mug'',
     quantity = 3, product = None\<rparr>"

text \<open>Ann's cart holds tea and a mug, on the server and locally; the connection is up.\<close>

definition ann_store :: store where
  "ann_store = \<lparr>rows = [row_tea, row_mug], read_faults = 0, write_faults = 0\<rparr>"

definition ann_sys :: "store sys" where
  "ann_sys = \<lparr>items = [row_tea, row_mug], loading = False, remote = ann_store,
     calls = [], console = []\<rparr>"

text \<open>
  A request of Ann's is pending: an operation has raised the busy flag (lines 39, 57,
  75, 88) and is suspended at its \<^verbatim>\<open>await\<close>.
\<close>

definition ann_sys_pending :: "store sys" where
  "ann_sys_pending = snd (setLoading True ann_sys)"

text \<open>
  A sweet at 0.10, three of them in Bob's cart. The price is the double that \<^verbatim>\<open>0.10\<close>
  is read as.
\<close>

definition sweet :: product where
  "sweet = \<lparr>product_key = ''p-sweet'', name = ''Sweet'',
     price = Finite (3602879701896397 / 2 ^ 55), stock_quantity = 500\<rparr>"

definition row_sweet :: cart_item where
  "row_sweet = \<lparr>item_id = ''row-p-sweet'', user_id = ''bob'', product_id = ''p-sweet'',
     quantity = 3, product = Some sweet\<rparr>"

definition bob_sys :: "store sys" where
  "bob_sys = \<lparr>items = [row_sweet], loading = False,
     remote = \<lparr>rows = [row_sweet], read_faults = 0, write_faults = 0\<rparr>,
     calls = [], console = []\<rparr>"

text \<open>The same, with the next read, or the next write, dropped.\<close>

definition ann_sys_read_fault :: "store sys" where
  "ann_sys_read_fault = ann_sys\<lparr>remote := ann_store\<lparr>read_faults := 1\<rparr>\<rparr>"

definition ann_sys_write_fault :: "store sys" where
  "ann_sys_write_fault = ann_sys\<lparr>remote := ann_store\<lparr>write_faults := 1\<rparr>\<rparr>"

lemmas prog_defs =
  return_ok_def throw_def then_do_def try_catch_def try_finally_def setItems_def
  setLoading_def console_error_def request_def getCartItems_def remote_addToCart_def
  updateCartItem_def remote_removeFromCart_def

lemmas store_defs =
  store_api_def write_store_def read_store_def new_row_def ann_sys_def ann_store_def
  row_tea_def row_mug_def tea_def ann_sys_read_fault_def ann_sys_write_fault_def

section \<open>Rounding\<close>

lemma two_powi_less_iff: "power_int (2::rat) m < power_int 2 n \<longleftrightarrow> m < n"
  using power_int_strict_increasing [of m n "2::rat"] power_int_increasing [of n m "2::rat"]
  by (cases "m < n") simp_all

lemma two_powi_le_iff: "power_int (2::rat) m \<le> power_int 2 n \<longleftrightarrow> m \<le> n"
  using power_int_strict_increasing [of n m "2::rat"] power_int_increasing [of m n "2::rat"]
  by (cases "m \<le> n") simp_all

lemma binade_ge1:
  fixes x :: rat
  assumes "1 \<le> \<bar>x\<bar>"
  shows "power_int 2 (binade x) \<le> \<bar>x\<bar> \<and> \<bar>x\<bar> < power_int 2 (binade x + 1)"
proof -
  define n where "n = \<lfloor>\<bar>x\<bar>\<rfloor>"
  have n1: "1 \<le> n" using assms by (simp add: n_def le_floor_iff)
  then have n0: "0 < n" by simp
  have b: "binade x = bitlen n - 1" using assms by (simp add: binade_def n_def)
  from bitlen_bounds [OF n0] have lo: "2 ^ nat (bitlen n - 1) \<le> n" and hi: "n < 2 ^ nat (bitlen n)"
    by simp_all
  have bl: "1 \<le> bitlen n" using n0 bitlen_eq_zero_iff [of n] bitlen_nonneg [of n] by linarith
  have "power_int (2::rat) (bitlen n - 1) = 2 ^ nat (bitlen n - 1)"
    using bl by (simp add: power_int_def)
  also have "\<dots> = of_int (2 ^ nat (bitlen n - 1))" by simp
  also have "\<dots> \<le> of_int n" using lo by (simp only: of_int_le_iff)
  also have "\<dots> \<le> \<bar>x\<bar>" by (simp add: n_def)
  finally have L: "power_int 2 (binade x) \<le> \<bar>x\<bar>" by (simp add: b)
  have "n + 1 \<le> 2 ^ nat (bitlen n)" using hi by simp
  then have "(of_int (n + 1) :: rat) \<le> of_int (2 ^ nat (bitlen n))" by (simp only: of_int_le_iff)
  moreover have "\<bar>x\<bar> < of_int (n + 1)" unfolding n_def by linarith
  ultimately have "\<bar>x\<bar> < 2 ^ nat (bitlen n)" by simp
  also have "\<dots> = power_int 2 (bitlen n)" using bl by (simp add: power_int_def)
  finally have "\<bar>x\<bar> < power_int 2 (binade x + 1)" by (simp add: b)
  with L show ?thesis by simp
qed

lemma binade_lt1:
  fixes x :: rat
  assumes "x \<noteq> 0" "\<bar>x\<bar> < 1"
  shows "power_int 2 (binade x) \<le> \<bar>x\<bar> \<and> \<bar>x\<bar> < power_int 2 (binade x + 1)"
proof -
  define c where "c = \<lceil>1 / \<bar>x\<bar>\<rceil>"
  define n where "n = c - 1"
  define k where "k = bitlen n"
  have pos: "0 < \<bar>x\<bar>" using assms by simp
  have inv: "1 < 1 / \<bar>x\<bar>" using assms pos by (simp add: field_simps)
  then have "1 < c" unfolding c_def by (simp add: less_ceiling_iff)
  then have n0: "0 < n" by (simp add: n_def)
  have b: "binade x = - k" using assms by (simp add: binade_def k_def n_def c_def)
  from bitlen_bounds [OF n0] have lo: "2 ^ nat (k - 1) \<le> n" and hi: "n < 2 ^ nat k"
    by (simp_all add: k_def)
  have k1: "1 \<le> k" using n0 bitlen_eq_zero_iff [of n] bitlen_nonneg [of n] by (simp add: k_def)
  have "c \<le> 2 ^ nat k" using hi by (simp add: n_def)
  then have "(of_int c :: rat) \<le> of_int (2 ^ nat k)" by (simp only: of_int_le_iff)
  then have "(of_int c :: rat) \<le> 2 ^ nat k" by simp
  moreover have "1 / \<bar>x\<bar> \<le> of_int c" by (simp add: c_def)
  ultimately have "1 / \<bar>x\<bar> \<le> 2 ^ nat k" by (rule order_trans [rotated])
  then have "1 \<le> 2 ^ nat k * \<bar>x\<bar>" using pos by (simp add: field_simps)
  then have "1 / 2 ^ nat k \<le> \<bar>x\<bar>" by (simp add: field_simps)
  moreover have "power_int (2::rat) (- k) = 1 / 2 ^ nat k"
    using k1 by (simp add: power_int_def field_simps)
  ultimately have L: "power_int 2 (binade x) \<le> \<bar>x\<bar>" by (simp add: b)
  have "(of_int (2 ^ nat (k - 1)) :: rat) \<le> of_int n" using lo by (simp only: of_int_le_iff)
  then have "(2 ^ nat (k - 1) :: rat) \<le> of_int n" by simp
  moreover have "of_int n < 1 / \<bar>x\<bar>" unfolding n_def c_def by linarith
  ultimately have "2 ^ nat (k - 1) < 1 / \<bar>x\<bar>" by (rule le_less_trans)
  then have "2 ^ nat (k - 1) * \<bar>x\<bar> < 1" using pos by (simp add: field_simps)
  then have "\<bar>x\<bar> < 1 / 2 ^ nat (k - 1)" by (simp add: field_simps)
  moreover have "power_int (2::rat) (- k + 1) = 1 / 2 ^ nat (k - 1)"
  proof (cases "k = 1")
    case True then show ?thesis by simp
  next
    case False
    with k1 have "- k + 1 < 0" by simp
    moreover have "nat (- (- k + 1)) = nat (k - 1)" by simp
    ultimately show ?thesis by (simp add: power_int_def field_simps)
  qed
  ultimately have "\<bar>x\<bar> < power_int 2 (binade x + 1)" by (simp add: b)
  with L show ?thesis by simp
qed

lemma binade_bounds:
  fixes x :: rat
  assumes "x \<noteq> 0"
  shows "power_int 2 (binade x) \<le> \<bar>x\<bar>" and "\<bar>x\<bar> < power_int 2 (binade x + 1)"
  using binade_ge1 [of x] binade_lt1 [of x] assms by (cases "1 \<le> \<bar>x\<bar>"; simp)+

lemma binade_unique:
  fixes x :: rat
  assumes "power_int 2 e \<le> \<bar>x\<bar>" "\<bar>x\<bar> < power_int 2 (e + 1)"
  shows "binade x = e"
proof -
  have "0 < power_int (2::rat) e" by simp
  with assms(1) have "0 < \<bar>x\<bar>" by linarith
  then have x0: "x \<noteq> 0" by simp
  note b = binade_bounds [OF x0]
  have "power_int (2::rat) e < power_int 2 (binade x + 1)"
    using assms(1) b(2) by linarith
  then have 1: "e < binade x + 1" by (simp add: two_powi_less_iff)
  have "power_int (2::rat) (binade x) < power_int 2 (e + 1)"
    using assms(2) b(1) by linarith
  then have 2: "binade x < e + 1" by (simp add: two_powi_less_iff)
  from 1 2 show ?thesis by simp
qed

lemma round_half_even_of_int: "round_half_even (of_int k) = k"
  by (simp add: round_half_even_def)

lemma round_half_even_range:
  "of_int \<lfloor>x\<rfloor> \<le> (of_int (round_half_even x) :: rat)"
  "(of_int (round_half_even x) :: rat) \<le> of_int \<lceil>x\<rceil>"
proof -
  show "of_int \<lfloor>x\<rfloor> \<le> (of_int (round_half_even x) :: rat)"
    by (simp add: round_half_even_def)
  have "\<lfloor>x\<rfloor> + 1 \<le> \<lceil>x\<rceil>" if "x \<noteq> of_int \<lfloor>x\<rfloor>"
    using that by (metis ceiling_altdef order_refl)
  moreover have "\<lfloor>x\<rfloor> \<le> \<lceil>x\<rceil>" by (simp add: floor_le_ceiling)
  ultimately have "round_half_even x \<le> \<lceil>x\<rceil>"
    by (auto simp: round_half_even_def)
  then show "(of_int (round_half_even x) :: rat) \<le> of_int \<lceil>x\<rceil>"
    by (simp only: of_int_le_iff)
qed

lemma round_half_even_abs_le:
  assumes "\<bar>x\<bar> \<le> of_int N"
  shows "\<bar>round_half_even x\<bar> \<le> N"
proof -
  from assms have "x \<le> of_int N" and "of_int (- N) \<le> x" by simp_all
  then have "\<lceil>x\<rceil> \<le> N" and "- N \<le> \<lfloor>x\<rfloor>"
    by (simp_all add: ceiling_le_iff le_floor_iff)
  moreover from round_half_even_range [of x]
  have "\<lfloor>x\<rfloor> \<le> round_half_even x" and "round_half_even x \<le> \<lceil>x\<rceil>"
    by (simp_all only: of_int_le_iff)
  ultimately show ?thesis by simp
qed

lemma nearest_exact:
  assumes k: "\<bar>k\<bar> < 2 ^ 53" and j: "- 1074 \<le> j"
  shows "nearest (of_int k * power_int 2 j) = of_int k * power_int 2 j"
proof (cases "k = 0")
  case True
  then show ?thesis by (simp add: nearest_def round_half_even_def)
next
  case False
  define y :: rat where "y = of_int k * power_int 2 j"
  have y0: "y \<noteq> 0" using False by (simp add: y_def)
  define E where "E = max (binade y) (- 1022)"
  have "(of_int \<bar>k\<bar> :: rat) < of_int (2 ^ 53)" using k by (simp only: of_int_less_iff)
  then have "\<bar>of_int k :: rat\<bar> < power_int 2 53" by (simp add: power_int_def)
  then have "\<bar>y\<bar> < power_int 2 53 * power_int 2 j"
    by (simp add: y_def abs_mult)
  also have "\<dots> = power_int 2 (53 + j)"
    by (simp add: power_int_add)
  finally have "power_int 2 (binade y) < power_int (2::rat) (53 + j)"
    using binade_bounds(1) [OF y0] by linarith
  then have "binade y < 53 + j" by (simp add: two_powi_less_iff)
  with j have Ej: "E - 52 \<le> j" by (simp add: E_def)
  define n where "n = nat (j - (E - 52))"
  have "power_int (2::rat) j = power_int 2 (int n + (E - 52))"
    using Ej by (simp add: n_def)
  also have "\<dots> = 2 ^ n * power_int 2 (E - 52)"
    by (simp only: power_int_add [of "2::rat", simplified] power_int_of_nat)
  finally have split: "y = of_int (k * 2 ^ n) * power_int 2 (E - 52)"
    by (simp add: y_def)
  then have "y / power_int 2 (E - 52) = of_int (k * 2 ^ n)"
    by simp
  then have "round_half_even (y / ulp_of y) = k * 2 ^ n"
    by (simp only: ulp_of_def E_def [symmetric] round_half_even_of_int)
  then have "nearest y = of_int (k * 2 ^ n) * power_int 2 (E - 52)"
    by (simp only: nearest_def ulp_of_def E_def [symmetric])
  with split show ?thesis
    by (simp only: y_def)
qed

lemma nearest_idem: "nearest (nearest x) = nearest x"
proof (cases "x = 0")
  case True
  have "nearest 0 = 0" by (simp add: nearest_def round_half_even_def)
  with True show ?thesis by simp
next
  case False
  define E where "E = max (binade x) (- 1022)"
  define m where "m = round_half_even (x / ulp_of x)"
  have u: "ulp_of x = power_int 2 (E - 52)" by (simp add: ulp_of_def E_def)
  have y: "nearest x = of_int m * power_int 2 (E - 52)"
    by (simp add: nearest_def m_def u)
  have "\<bar>x\<bar> < power_int 2 (binade x + 1)" by (rule binade_bounds(2) [OF False])
  also have "\<dots> \<le> power_int 2 (E + 1)" by (simp add: two_powi_le_iff E_def)
  also have "\<dots> = power_int 2 (53 + (E - 52))"
    by (rule arg_cong [where f = "power_int 2"]) simp
  also have "\<dots> = power_int 2 53 * power_int 2 (E - 52)"
    by (simp only: power_int_add [of "2::rat", simplified])
  finally have "\<bar>x\<bar> / power_int 2 (E - 52) < power_int 2 53"
    by (simp add: field_simps)
  then have "\<bar>x / ulp_of x\<bar> \<le> of_int (2 ^ 53)"
    by (simp add: u abs_divide power_int_def)
  from round_half_even_abs_le [OF this] have m: "\<bar>m\<bar> \<le> 2 ^ 53" by (simp add: m_def)
  have j: "- 1074 \<le> E - 52" by (simp add: E_def)
  show ?thesis
  proof (cases "\<bar>m\<bar> < 2 ^ 53")
    case True
    from nearest_exact [OF True j] show ?thesis by (simp only: y)
  next
    case False
    with m have "\<bar>m\<bar> = 2 ^ 53" by simp
    then have "m = 2 ^ 53 \<or> m = - (2 ^ 53)" by (simp add: abs_if split: if_splits)
    then have "m = 2 * (m div 2)" and h: "\<bar>m div 2\<bar> < 2 ^ 53" by auto
    then have "(of_int m :: rat) = of_int (m div 2) * 2" by (metis mult.commute of_int_mult of_int_numeral)
    then have "nearest x = of_int (m div 2) * (2 * power_int 2 (E - 52))"
      by (simp only: y mult.assoc)
    also have "2 * power_int (2::rat) (E - 52) = power_int 2 (1 + (E - 52))"
      by (simp only: power_int_add [of "2::rat", simplified]) simp
    finally have y': "nearest x = of_int (m div 2) * power_int 2 (1 + (E - 52))" .
    from j have j': "- 1074 \<le> 1 + (E - 52)" by simp
    from nearest_exact [OF h j'] show ?thesis by (simp only: y')
  qed
qed

lemma round_number_idem:
  assumes "round_number x = Finite y"
  shows "round_number y = Finite y"
proof -
  from assms have "y = nearest x" and "\<not> overflow \<le> nearest x" and "\<not> nearest x \<le> - overflow"
    by (auto simp: round_number_def split: if_splits)
  then show ?thesis
    by (simp add: round_number_def nearest_idem)
qed

lemma round_number_exact:
  assumes "\<bar>k\<bar> < 2 ^ 53" and "- 1074 \<le> j" and "j \<le> 970"
  shows "round_number (of_int k * power_int 2 j) = Finite (of_int k * power_int 2 j)"
proof -
  have "(of_int \<bar>k\<bar> :: rat) < of_int (2 ^ 53)" using assms(1) by (simp only: of_int_less_iff)
  then have "\<bar>of_int k :: rat\<bar> < power_int 2 53" by (simp add: power_int_def)
  moreover have "power_int (2::rat) j \<le> power_int 2 970"
    using assms(3) by (simp only: two_powi_le_iff)
  ultimately have "\<bar>of_int k :: rat\<bar> * power_int 2 j < power_int 2 53 * power_int 2 970"
    by (intro mult_less_le_imp_less) simp_all
  also have "\<dots> = power_int 2 (53 + 970)"
    by (simp only: power_int_add [of "2::rat", simplified])
  also have "\<dots> \<le> power_int 2 1024" by (simp only: two_powi_le_iff)
  also have "\<dots> = overflow" by (simp only: overflow_def power_int_numeral)
  finally have "\<bar>of_int k * power_int 2 j :: rat\<bar> < overflow"
    by (simp add: abs_mult)
  then show ?thesis
    by (simp add: round_number_def nearest_exact [OF assms(1,2)] abs_less_iff)
qed

lemma round_number_eval:
  assumes lo: "power_int 2 e \<le> \<bar>x\<bar>" and hi: "\<bar>x\<bar> < power_int 2 (e + 1)"
    and e: "- 1022 \<le> e" "e \<le> 1022"
  shows "round_number x
    = Finite (of_int (round_half_even (x / power_int 2 (e - 52))) * power_int 2 (e - 52))"
proof -
  have b: "binade x = e" by (rule binade_unique [OF lo hi])
  with e have u: "ulp_of x = power_int 2 (e - 52)" by (simp add: ulp_of_def)
  define m where "m = round_half_even (x / power_int 2 (e - 52))"
  have n: "nearest x = of_int m * power_int 2 (e - 52)" by (simp add: nearest_def u m_def)
  have "power_int (2::rat) (e + 1) = power_int 2 (53 + (e - 52))"
    by (rule arg_cong [where f = "power_int 2"]) simp
  also have "\<dots> = power_int 2 53 * power_int 2 (e - 52)"
    by (simp only: power_int_add [of "2::rat", simplified])
  finally have "\<bar>x\<bar> / power_int 2 (e - 52) < power_int 2 53"
    using hi by (simp add: field_simps)
  then have "\<bar>x / power_int 2 (e - 52)\<bar> \<le> of_int (2 ^ 53)"
    by (simp add: abs_divide power_int_def)
  from round_half_even_abs_le [OF this] have "\<bar>m\<bar> \<le> 2 ^ 53" by (simp add: m_def)
  then have "(of_int \<bar>m\<bar> :: rat) \<le> of_int (2 ^ 53)" by (simp only: of_int_le_iff)
  then have "\<bar>of_int m :: rat\<bar> \<le> power_int 2 53" by (simp add: power_int_def)
  then have "\<bar>of_int m :: rat\<bar> * power_int 2 (e - 52) \<le> power_int 2 53 * power_int 2 (e - 52)"
    by (intro mult_right_mono) simp_all
  also have "\<dots> = power_int 2 (53 + (e - 52))"
    by (simp only: power_int_add [of "2::rat", simplified])
  also have "\<dots> < power_int 2 1024" using e by (simp only: two_powi_less_iff)
  also have "\<dots> = overflow" by (simp only: overflow_def power_int_numeral)
  finally have "\<bar>nearest x\<bar> < overflow" by (simp add: n abs_mult)
  then show ?thesis
    by (simp add: round_number_def n m_def abs_less_iff)
qed

lemma round_half_even_divide:
  assumes "0 < b"
  shows "round_half_even (of_int a / of_int b) =
    (if 2 * (a mod b) < b then a div b
     else if b < 2 * (a mod b) then a div b + 1
     else if even (a div b) then a div b else a div b + 1)"
proof -
  have f: "\<lfloor>(of_int a / of_int b :: rat)\<rfloor> = a div b"
    by (rule floor_divide_of_int_eq)
  have "(of_int a :: rat) = of_int (a div b) * of_int b + of_int (a mod b)"
    by (metis div_mult_mod_eq of_int_add of_int_mult)
  then have d: "(of_int a / of_int b :: rat) - of_int (a div b) = of_int (a mod b) / of_int b"
    using assms by (simp add: field_simps)
  have lt: "(of_int (a mod b) / of_int b :: rat) < 1 / 2 \<longleftrightarrow> 2 * (a mod b) < b"
  proof -
    have "(of_int (a mod b) / of_int b :: rat) < 1 / 2 \<longleftrightarrow> (of_int (2 * (a mod b)) :: rat) < of_int b"
      using assms by (simp add: field_simps)
    then show ?thesis by (simp only: of_int_less_iff)
  qed
  have gt: "1 / 2 < (of_int (a mod b) / of_int b :: rat) \<longleftrightarrow> b < 2 * (a mod b)"
  proof -
    have "1 / 2 < (of_int (a mod b) / of_int b :: rat) \<longleftrightarrow> (of_int b :: rat) < of_int (2 * (a mod b))"
      using assms by (simp add: field_simps)
    then show ?thesis by (simp only: of_int_less_iff)
  qed
  show ?thesis
    unfolding round_half_even_def f d lt gt ..
qed

lemma nearest_0: "nearest 0 = 0"
  by (simp add: nearest_def round_half_even_def)

lemma round_number_0: "round_number 0 = Finite 0"
  using round_number_exact [of 0 0] by simp

lemma round_number_of_int:
  assumes "\<bar>k\<bar> < 2 ^ 53"
  shows "round_number (of_int k) = Finite (of_int k)"
  using round_number_exact [OF assms, of 0] by simp

lemma to_number_exact: "\<bar>n\<bar> < 2 ^ 53 \<Longrightarrow> to_number n = Finite (of_int n)"
  by (simp add: to_number_def round_number_of_int)

lemma is_double_round_number: "is_double (round_number x)"
  by (cases "round_number x") (simp_all add: round_number_idem)

lemma is_double_fadd: "is_double (fadd a b)"
  by (cases a; cases b) (simp_all add: is_double_round_number)

lemma fadd_0_right: "is_double t \<Longrightarrow> fadd t (Finite 0) = t"
  by (cases t) simp_all

lemma is_double_foldl_fadd:
  "is_double t \<Longrightarrow> is_double (foldl (\<lambda>total item. fadd total (f item)) t xs)"
  by (induction xs arbitrary: t) (simp_all add: is_double_fadd)

lemma is_double_getTotalPrice: "is_double (getTotalPrice s)"
  unfolding getTotalPrice_def
  by (rule is_double_foldl_fadd) (simp add: round_number_0)

lemma price_or_0_no_product: "price_or_0 (item\<lparr>product := None\<rparr>) = Finite 0"
  by (simp add: price_or_0_def)

lemma getTotalPrice_snoc:
  "getTotalPrice (s\<lparr>items := xs @ [item]\<rparr>)
     = fadd (getTotalPrice (s\<lparr>items := xs\<rparr>)) (fmul (price_or_0 item) (to_number (quantity item)))"
  by (simp add: getTotalPrice_def)

lemma getTotalPrice_skips_no_product:
  assumes "\<bar>quantity item\<bar> < 2 ^ 53"
  shows "getTotalPrice (s\<lparr>items := xs @ [item\<lparr>product := None\<rparr>] @ ys\<rparr>)
    = getTotalPrice (s\<lparr>items := xs @ ys\<rparr>)"
proof -
  have d: "is_double (getTotalPrice (s\<lparr>items := xs\<rparr>))"
    by (rule is_double_getTotalPrice)
  have "fmul (price_or_0 (item\<lparr>product := None\<rparr>)) (to_number (quantity (item\<lparr>product := None\<rparr>)))
      = Finite 0"
    using assms by (simp add: price_or_0_no_product to_number_exact round_number_0)
  with d show ?thesis
    by (simp add: getTotalPrice_def fadd_0_right)
qed

lemma unrounded_foldl:
  assumes "unrounded t xs"
  shows "foldl (\<lambda>total item. fadd total (fmul (price_or_0 item) (to_number (quantity item))))
      (Finite t) xs = Finite (t + sum_list (map line_total xs))"
  using assms
proof (induction xs arbitrary: t)
  case Nil
  then show ?case by simp
next
  case (Cons item rest)
  from Cons.prems obtain a where a: "price_or_0 item = Finite a"
    by (cases "price_or_0 item") simp_all
  with Cons.prems have q: "to_number (quantity item) = Finite (of_int (quantity item))"
    and p: "round_number (a * of_int (quantity item)) = Finite (a * of_int (quantity item))"
    and u: "round_number (t + a * of_int (quantity item)) = Finite (t + a * of_int (quantity item))"
    and r: "unrounded (t + a * of_int (quantity item)) rest"
    by simp_all
  have l: "line_total item = a * of_int (quantity item)"
    by (simp add: line_total_def a)
  from Cons.IH [OF r] show ?case
    by (simp add: a q p u l add.assoc)
qed

lemma getTotalPrice_unrounded:
  "unrounded 0 (items s) \<Longrightarrow> getTotalPrice s = Finite (exact_total s)"
  using unrounded_foldl [of 0 "items s"] by (simp add: getTotalPrice_def exact_total_def)

section \<open>How the operations end\<close>

lemma foldl_plus_sum_list:
  fixes a :: "'a::monoid_add"
  shows "foldl (\<lambda>total x. total + f x) a xs = a + sum_list (map f xs)"
  by (induction xs arbitrary: a) (simp_all add: add.assoc)

lemma refreshCart_None: "refreshCart api None s = (Inr (), s\<lparr>items := []\<rparr>)"
  by (simp add: refreshCart_def setItems_def)

lemma refreshCart_read_ok:
  assumes "api_getCartItems api u (remote s) = (Inr r, w)"
  shows "refreshCart api (Some u) s =
    (Inr (), s\<lparr>items := or_empty r, loading := False, remote := w,
       calls := calls s @ [Call_getCartItems u]\<rparr>)"
  using assms by (simp add: refreshCart_def prog_defs)

lemma refreshCart_read_failed:
  assumes "api_getCartItems api u (remote s) = (Inl e, w)"
  shows "refreshCart api (Some u) s =
    (Inr (), s\<lparr>loading := False, remote := w, calls := calls s @ [Call_getCartItems u],
       console := console s @ [(''Error fetching cart:'', e)]\<rparr>)"
  using assms by (simp add: refreshCart_def prog_defs)

lemma refreshCart_fulfils: "fst (refreshCart api user s) = Inr ()"
  by (cases user; cases "api_getCartItems api (the user) (remote s)";
      cases "fst (api_getCartItems api (the user) (remote s))")
     (simp_all add: refreshCart_None refreshCart_read_ok refreshCart_read_failed)

text \<open>A mutation whose write succeeded ends as the refresh after it ends.\<close>

lemma addToCart_write_ok:
  assumes "api_addToCart api u p (quantity_or_1 q) (remote s) = (Inr (), w)"
  shows "addToCart api (Some u) p q s =
    refreshCart api (Some u)
      (s\<lparr>remote := w, calls := calls s @ [Call_addToCart u p (quantity_or_1 q)]\<rparr>)"
  using assms
  by (cases "api_getCartItems api u w"; cases "fst (api_getCartItems api u w)")
     (simp_all add: addToCart_def refreshCart_def prog_defs)

lemma removeFromCart_write_ok:
  assumes "api_removeFromCart api i (remote s) = (Inr (), w)"
  shows "removeFromCart api (Some u) i s =
    refreshCart api (Some u) (s\<lparr>remote := w, calls := calls s @ [Call_removeFromCart i]\<rparr>)"
  using assms
  by (cases "api_getCartItems api u w"; cases "fst (api_getCartItems api u w)")
     (simp_all add: removeFromCart_def refreshCart_def prog_defs)

lemma updateQuantity_write_ok:
  assumes "0 < n" "api_updateCartItem api i n (remote s) = (Inr (), w)"
  shows "updateQuantity api (Some u) i n s =
    refreshCart api (Some u) (s\<lparr>remote := w, calls := calls s @ [Call_updateCartItem i n]\<rparr>)"
  using assms
  by (cases "api_getCartItems api u w"; cases "fst (api_getCartItems api u w)")
     (simp_all add: updateQuantity_def refreshCart_def prog_defs)

lemma addToCart_write_failed:
  assumes "api_addToCart api u p (quantity_or_1 q) (remote s) = (Inl e, w)"
  shows "addToCart api (Some u) p q s =
    (Inl e, s\<lparr>loading := False, remote := w,
       calls := calls s @ [Call_addToCart u p (quantity_or_1 q)],
       console := console s @ [(''Error adding to cart:'', e)]\<rparr>)"
  using assms by (simp add: addToCart_def prog_defs)

lemma removeFromCart_write_failed:
  assumes "api_removeFromCart api i (remote s) = (Inl e, w)"
  shows "removeFromCart api user i s =
    (Inl e, s\<lparr>loading := False, remote := w, calls := calls s @ [Call_removeFromCart i],
       console := console s @ [(''Error removing from cart:'', e)]\<rparr>)"
  using assms by (simp add: removeFromCart_def prog_defs)

lemma updateQuantity_write_failed:
  assumes "0 < n" "api_updateCartItem api i n (remote s) = (Inl e, w)"
  shows "updateQuantity api user i n s =
    (Inl e, s\<lparr>loading := False, remote := w, calls := calls s @ [Call_updateCartItem i n],
       console := console s @ [(''Error updating cart item:'', e)]\<rparr>)"
  using assms by (simp add: updateQuantity_def prog_defs)

lemma refreshCart_user_idle: "loading (snd (refreshCart api (Some u) s)) = False"
  by (cases "api_getCartItems api u (remote s)"; cases "fst (api_getCartItems api u (remote s))")
     (simp_all add: refreshCart_read_ok refreshCart_read_failed)

lemma removeFromCart_idle: "loading (snd (removeFromCart api user i s)) = False"
  by (auto simp: removeFromCart_def refreshCart_def prog_defs
      split: prod.splits sum.splits option.splits)

lemma updateQuantity_idle: "loading (snd (updateQuantity api user i n s)) = False"
  by (auto simp: updateQuantity_def removeFromCart_idle refreshCart_def prog_defs
      split: prod.splits sum.splits option.splits)

lemma addToCart_user_idle: "loading (snd (addToCart api (Some u) p q s)) = False"
  by (auto simp: addToCart_def refreshCart_def prog_defs split: prod.splits sum.splits)

lemma addToCart_None: "addToCart api None p q s = (Inl (Error ''User must be logged in''), s)"
  by (simp add: addToCart_def throw_def)

lemma removeFromCart_None:
  "calls (snd (removeFromCart api None i s)) = calls s @ [Call_removeFromCart i]
   \<and> fst (removeFromCart api None i s) = fst (api_removeFromCart api i (remote s))"
  by (cases "api_removeFromCart api i (remote s)";
      cases "fst (api_removeFromCart api i (remote s))")
     (simp_all add: removeFromCart_def refreshCart_None prog_defs)

lemma updateQuantity_None:
  "0 < n \<Longrightarrow>
   calls (snd (updateQuantity api None i n s)) = calls s @ [Call_updateCartItem i n]
   \<and> fst (updateQuantity api None i n s) = fst (api_updateCartItem api i n (remote s))"
  by (cases "api_updateCartItem api i n (remote s)";
      cases "fst (api_updateCartItem api i n (remote s))")
     (simp_all add: updateQuantity_def refreshCart_None prog_defs)

lemma refreshCart_reconciles:
  assumes "c = refreshCart api (Some u) (s\<lparr>remote := w0, calls := cs\<rparr>)"
  shows "(api_getCartItems api u w0 = (Inr r, w) \<longrightarrow>
            items (snd c) = or_empty r \<and> remote (snd c) = w
            \<and> (fst (api_getCartItems api u w) = Inr r \<longrightarrow> in_sync api u (snd c)))
         \<and> (fst (api_getCartItems api u w0) = Inl e \<longrightarrow> items (snd c) = items s)"
proof (intro conjI impI)
  assume ok: "api_getCartItems api u w0 = (Inr r, w)"
  then have "api_getCartItems api u (remote (s\<lparr>remote := w0, calls := cs\<rparr>)) = (Inr r, w)"
    by simp
  from refreshCart_read_ok [OF this] assms
  have c: "snd c = s\<lparr>items := or_empty r, loading := False, remote := w,
      calls := cs @ [Call_getCartItems u]\<rparr>"
    by simp
  then show "items (snd c) = or_empty r" and "remote (snd c) = w"
    by simp_all
  assume "fst (api_getCartItems api u w) = Inr r"
  with c show "in_sync api u (snd c)"
    by (simp add: in_sync_def)
next
  assume "fst (api_getCartItems api u w0) = Inl e"
  then obtain w' where "api_getCartItems api u w0 = (Inl e, w')"
    by (cases "api_getCartItems api u w0") simp
  then have "api_getCartItems api u (remote (s\<lparr>remote := w0, calls := cs\<rparr>)) = (Inl e, w')"
    by simp
  from refreshCart_read_failed [OF this] assms show "items (snd c) = items s"
    by simp
qed

lemma addToCart_fulfilled:
  assumes "fst (addToCart api (Some u) p q s) = Inr ()"
  shows "addToCart api (Some u) p q s =
    refreshCart api (Some u)
      (s\<lparr>remote := snd (api_addToCart api u p (quantity_or_1 q) (remote s)),
         calls := calls s @ [Call_addToCart u p (quantity_or_1 q)]\<rparr>)"
proof (cases "api_addToCart api u p (quantity_or_1 q) (remote s)")
  case (Pair a w)
  show ?thesis
  proof (cases a)
    case (Inl e)
    with Pair assms show ?thesis
      by (simp add: addToCart_write_failed)
  next
    case (Inr x)
    with Pair show ?thesis
      by (simp add: addToCart_write_ok)
  qed
qed

lemma removeFromCart_fulfilled:
  assumes "fst (removeFromCart api (Some u) i s) = Inr ()"
  shows "removeFromCart api (Some u) i s =
    refreshCart api (Some u)
      (s\<lparr>remote := snd (api_removeFromCart api i (remote s)),
         calls := calls s @ [Call_removeFromCart i]\<rparr>)"
proof (cases "api_removeFromCart api i (remote s)")
  case (Pair a w)
  show ?thesis
  proof (cases a)
    case (Inl e)
    with Pair assms show ?thesis
      by (simp add: removeFromCart_write_failed)
  next
    case (Inr x)
    with Pair show ?thesis
      by (simp add: removeFromCart_write_ok)
  qed
qed

lemma updateQuantity_fulfilled:
  assumes "fst (updateQuantity api (Some u) i n s) = Inr ()"
  shows "updateQuantity api (Some u) i n s =
    refreshCart api (Some u)
      (s\<lparr>remote := snd (if n \<le> 0 then api_removeFromCart api i (remote s)
                         else api_updateCartItem api i n (remote s)),
         calls := calls s @ [if n \<le> 0 then Call_removeFromCart i else Call_updateCartItem i n]\<rparr>)"
proof (cases "n \<le> 0")
  case True
  then have "updateQuantity api (Some u) i n s = removeFromCart api (Some u) i s"
    by (simp add: updateQuantity_def)
  with True assms removeFromCart_fulfilled [of api u i s] show ?thesis
    by simp
next
  case False
  then have pos: "0 < n" by simp
  show ?thesis
  proof (cases "api_updateCartItem api i n (remote s)")
    case (Pair a w)
    show ?thesis
    proof (cases a)
      case (Inl e)
      with Pair assms pos show ?thesis
        by (simp add: updateQuantity_write_failed)
    next
      case (Inr x)
      with Pair pos show ?thesis
        by (simp add: updateQuantity_write_ok)
    qed
  qed
qed

lemma addToCart_fulfilled_iff:
  "(fst (addToCart api (Some u) p q s) = Inr ())
     = (fst (api_addToCart api u p (quantity_or_1 q) (remote s)) = Inr ())"
proof (cases "api_addToCart api u p (quantity_or_1 q) (remote s)")
  case (Pair a w)
  then show ?thesis
    by (cases a) (simp_all add: addToCart_write_failed addToCart_write_ok refreshCart_fulfils)
qed

lemma removeFromCart_fulfilled_iff:
  "(fst (removeFromCart api (Some u) i s) = Inr ())
     = (fst (api_removeFromCart api i (remote s)) = Inr ())"
proof (cases "api_removeFromCart api i (remote s)")
  case (Pair a w)
  then show ?thesis
    by (cases a)
       (simp_all add: removeFromCart_write_failed removeFromCart_write_ok refreshCart_fulfils)
qed

lemma updateQuantity_fulfilled_iff:
  "(fst (updateQuantity api (Some u) i n s) = Inr ())
     = (fst (if n \<le> 0 then api_removeFromCart api i (remote s)
             else api_updateCartItem api i n (remote s)) = Inr ())"
proof (cases "n \<le> 0")
  case True
  then have "updateQuantity api (Some u) i n s = removeFromCart api (Some u) i s"
    by (simp add: updateQuantity_def)
  with True show ?thesis
    by (simp add: removeFromCart_fulfilled_iff)
next
  case False
  then have pos: "0 < n" by simp
  show ?thesis
  proof (cases "api_updateCartItem api i n (remote s)")
    case (Pair a w)
    with pos False show ?thesis
      by (cases a)
         (simp_all add: updateQuantity_write_failed updateQuantity_write_ok refreshCart_fulfils)
  qed
qed

section \<open>Verified properties\<close>

text \<open>
  C1, as stated, fails: the refresh after a write swallows a failed read. Ann adds jam
  while the next read is dropped: the write succeeds, \<^verbatim>\<open>addToCart\<close> is fulfilled, the
  local items are the two held before, and a read issued now returns three rows.
\<close>

theorem addToCart_drift_counterexample:
  "fst (addToCart store_api (Some ''ann'') ''p-jam'' None ann_sys_read_fault) = Inr ()
   \<and> items (snd (addToCart store_api (Some ''ann'') ''p-jam'' None ann_sys_read_fault))
       = [row_tea, row_mug]
   \<and> fst (api_getCartItems store_api ''ann''
         (remote (snd (addToCart store_api (Some ''ann'') ''p-jam'' None ann_sys_read_fault))))
       = Inr (Some [row_tea, row_mug, new_row ''ann'' ''p-jam'' 1])
   \<and> \<not> in_sync store_api ''ann''
         (snd (addToCart store_api (Some ''ann'') ''p-jam'' None ann_sys_read_fault))"
proof -
  have w: "api_addToCart store_api ''ann'' ''p-jam'' (quantity_or_1 None) (remote ann_sys_read_fault)
      = (Inr (), \<lparr>rows = [row_tea, row_mug, new_row ''ann'' ''p-jam'' 1],
           read_faults = 1, write_faults = 0\<rparr>)"
    by (simp add: store_defs quantity_or_1_def)
  have r: "api_getCartItems store_api ''ann''
       (remote (ann_sys_read_fault\<lparr>remote := \<lparr>rows = [row_tea, row_mug, new_row ''ann'' ''p-jam'' 1],
           read_faults = 1, write_faults = 0\<rparr>,
         calls := calls ann_sys_read_fault @ [Call_addToCart ''ann'' ''p-jam'' (quantity_or_1 None)]\<rparr>))
      = (Inl (Error ''request failed''),
         \<lparr>rows = [row_tea, row_mug, new_row ''ann'' ''p-jam'' 1],
           read_faults = 0, write_faults = 0\<rparr>)"
    by (simp add: store_defs)
  have i: "items ann_sys_read_fault = [row_tea, row_mug]"
    by (simp add: ann_sys_read_fault_def ann_sys_def)
  have n: "[row_tea, row_mug] \<noteq> [row_tea, row_mug, new_row ''ann'' ''p-jam'' 1]"
    by simp
  show ?thesis
    unfolding addToCart_write_ok [OF w] refreshCart_read_failed [OF r]
    using n by (simp add: i in_sync_def) (simp add: store_defs or_empty_def)
qed

text \<open>
  C1, amended: with a session user, a mutating operation is fulfilled exactly when its
  remote write succeeds, whatever becomes of the read of the refresh that follows. If
  that read succeeds, the local items are exactly the sequence it returned (\<^verbatim>\<open>null\<close>
  read as empty), and they are what a fresh read returns provided the remote answers
  the repeated read the same. If that read fails, the failure is swallowed: the
  operation is fulfilled all the same and the local items are the ones held before.
\<close>

theorem mutation_reconciles:
  "(fst (addToCart api (Some u) p q s) = Inr ())
      = (fst (api_addToCart api u p (quantity_or_1 q) (remote s)) = Inr ())
   \<and> (fst (api_addToCart api u p (quantity_or_1 q) (remote s)) = Inr () \<longrightarrow>
      (api_getCartItems api u (snd (api_addToCart api u p (quantity_or_1 q) (remote s)))
          = (Inr r, w) \<longrightarrow>
         fst (addToCart api (Some u) p q s) = Inr ()
         \<and> items (snd (addToCart api (Some u) p q s)) = or_empty r
         \<and> remote (snd (addToCart api (Some u) p q s)) = w
         \<and> (fst (api_getCartItems api u w) = Inr r \<longrightarrow>
              in_sync api u (snd (addToCart api (Some u) p q s))))
      \<and> (fst (api_getCartItems api u (snd (api_addToCart api u p (quantity_or_1 q) (remote s))))
          = Inl e \<longrightarrow>
         fst (addToCart api (Some u) p q s) = Inr ()
         \<and> items (snd (addToCart api (Some u) p q s)) = items s))
   \<and> (fst (removeFromCart api (Some u) i s) = Inr ())
      = (fst (api_removeFromCart api i (remote s)) = Inr ())
   \<and> (fst (api_removeFromCart api i (remote s)) = Inr () \<longrightarrow>
      (api_getCartItems api u (snd (api_removeFromCart api i (remote s))) = (Inr r, w) \<longrightarrow>
         fst (removeFromCart api (Some u) i s) = Inr ()
         \<and> items (snd (removeFromCart api (Some u) i s)) = or_empty r
         \<and> remote (snd (removeFromCart api (Some u) i s)) = w
         \<and> (fst (api_getCartItems api u w) = Inr r \<longrightarrow>
              in_sync api u (snd (removeFromCart api (Some u) i s))))
      \<and> (fst (api_getCartItems api u (snd (api_removeFromCart api i (remote s)))) = Inl e \<longrightarrow>
         fst (removeFromCart api (Some u) i s) = Inr ()
         \<and> items (snd (removeFromCart api (Some u) i s)) = items s))
   \<and> (fst (updateQuantity api (Some u) i n s) = Inr ())
      = (fst (if n \<le> 0 then api_removeFromCart api i (remote s)
              else api_updateCartItem api i n (remote s)) = Inr ())
   \<and> (fst (if n \<le> 0 then api_removeFromCart api i (remote s)
            else api_updateCartItem api i n (remote s)) = Inr () \<longrightarrow>
      (api_getCartItems api u
          (snd (if n \<le> 0 then api_removeFromCart api i (remote s)
                else api_updateCartItem api i n (remote s))) = (Inr r, w) \<longrightarrow>
         fst (updateQuantity api (Some u) i n s) = Inr ()
         \<and> items (snd (updateQuantity api (Some u) i n s)) = or_empty r
         \<and> remote (snd (updateQuantity api (Some u) i n s)) = w
         \<and> (fst (api_getCartItems api u w) = Inr r \<longrightarrow>
              in_sync api u (snd (updateQuantity api (Some u) i n s))))
      \<and> (fst (api_getCartItems api u
          (snd (if n \<le> 0 then api_removeFromCart api i (remote s)
                else api_updateCartItem api i n (remote s)))) = Inl e \<longrightarrow>
         fst (updateQuantity api (Some u) i n s) = Inr ()
         \<and> items (snd (updateQuantity api (Some u) i n s)) = items s))"
proof -
  note a = addToCart_fulfilled_iff [of api u p q s]
  note r = removeFromCart_fulfilled_iff [of api u i s]
  note u = updateQuantity_fulfilled_iff [of api u i n s]
  from a refreshCart_reconciles [OF addToCart_fulfilled, of api u p q s r w e]
  have A: "(fst (addToCart api (Some u) p q s) = Inr ())
      = (fst (api_addToCart api u p (quantity_or_1 q) (remote s)) = Inr ())
   \<and> (fst (api_addToCart api u p (quantity_or_1 q) (remote s)) = Inr () \<longrightarrow>
      (api_getCartItems api u (snd (api_addToCart api u p (quantity_or_1 q) (remote s)))
          = (Inr r, w) \<longrightarrow>
         fst (addToCart api (Some u) p q s) = Inr ()
         \<and> items (snd (addToCart api (Some u) p q s)) = or_empty r
         \<and> remote (snd (addToCart api (Some u) p q s)) = w
         \<and> (fst (api_getCartItems api u w) = Inr r \<longrightarrow>
              in_sync api u (snd (addToCart api (Some u) p q s))))
      \<and> (fst (api_getCartItems api u (snd (api_addToCart api u p (quantity_or_1 q) (remote s))))
          = Inl e \<longrightarrow>
         fst (addToCart api (Some u) p q s) = Inr ()
         \<and> items (snd (addToCart api (Some u) p q s)) = items s))"
    by blast
  from r refreshCart_reconciles [OF removeFromCart_fulfilled, of api u i s r w e]
  have R: "(fst (removeFromCart api (Some u) i s) = Inr ())
      = (fst (api_removeFromCart api i (remote s)) = Inr ())
   \<and> (fst (api_removeFromCart api i (remote s)) = Inr () \<longrightarrow>
      (api_getCartItems api u (snd (api_removeFromCart api i (remote s))) = (Inr r, w) \<longrightarrow>
         fst (removeFromCart api (Some u) i s) = Inr ()
         \<and> items (snd (removeFromCart api (Some u) i s)) = or_empty r
         \<and> remote (snd (removeFromCart api (Some u) i s)) = w
         \<and> (fst (api_getCartItems api u w) = Inr r \<longrightarrow>
              in_sync api u (snd (removeFromCart api (Some u) i s))))
      \<and> (fst (api_getCartItems api u (snd (api_removeFromCart api i (remote s)))) = Inl e \<longrightarrow>
         fst (removeFromCart api (Some u) i s) = Inr ()
         \<and> items (snd (removeFromCart api (Some u) i s)) = items s))"
    by blast
  from u refreshCart_reconciles [OF updateQuantity_fulfilled, of api u i n s r w e]
  have U: "(fst (updateQuantity api (Some u) i n s) = Inr ())
      = (fst (if n \<le> 0 then api_removeFromCart api i (remote s)
              else api_updateCartItem api i n (remote s)) = Inr ())
   \<and> (fst (if n \<le> 0 then api_removeFromCart api i (remote s)
            else api_updateCartItem api i n (remote s)) = Inr () \<longrightarrow>
      (api_getCartItems api u
          (snd (if n \<le> 0 then api_removeFromCart api i (remote s)
                else api_updateCartItem api i n (remote s))) = (Inr r, w) \<longrightarrow>
         fst (updateQuantity api (Some u) i n s) = Inr ()
         \<and> items (snd (updateQuantity api (Some u) i n s)) = or_empty r
         \<and> remote (snd (updateQuantity api (Some u) i n s)) = w
         \<and> (fst (api_getCartItems api u w) = Inr r \<longrightarrow>
              in_sync api u (snd (updateQuantity api (Some u) i n s))))
      \<and> (fst (api_getCartItems api u
          (snd (if n \<le> 0 then api_removeFromCart api i (remote s)
                else api_updateCartItem api i n (remote s)))) = Inl e \<longrightarrow>
         fst (updateQuantity api (Some u) i n s) = Inr ()
         \<and> items (snd (updateQuantity api (Some u) i n s)) = items s))"
    by blast
  from conjI [OF A conjI [OF R U]] show ?thesis
    unfolding conj_assoc .
qed

theorem mutation_reconciles_witness:
  "fst (addToCart store_api (Some ''ann'') ''p-jam'' None ann_sys) = Inr ()
   \<and> items (snd (addToCart store_api (Some ''ann'') ''p-jam'' None ann_sys))
       = [row_tea, row_mug, new_row ''ann'' ''p-jam'' 1]
   \<and> in_sync store_api ''ann'' (snd (addToCart store_api (Some ''ann'') ''p-jam'' None ann_sys))
   \<and> fst (removeFromCart store_api (Some ''ann'') ''row-p-mug'' ann_sys) = Inr ()
   \<and> items (snd (removeFromCart store_api (Some ''ann'') ''row-p-mug'' ann_sys)) = [row_tea]
   \<and> in_sync store_api ''ann'' (snd (removeFromCart store_api (Some ''ann'') ''row-p-mug'' ann_sys))
   \<and> fst (updateQuantity store_api (Some ''ann'') ''row-p-mug'' 5 ann_sys) = Inr ()
   \<and> items (snd (updateQuantity store_api (Some ''ann'') ''row-p-mug'' 5 ann_sys))
       = [row_tea, row_mug\<lparr>quantity := 5\<rparr>]
   \<and> in_sync store_api ''ann'' (snd (updateQuantity store_api (Some ''ann'') ''row-p-mug'' 5 ann_sys))
   \<and> fst (api_addToCart store_api ''ann'' ''p-jam'' (quantity_or_1 None)
        (remote ann_sys_read_fault)) = Inr ()
   \<and> fst (api_getCartItems store_api ''ann''
        (snd (api_addToCart store_api ''ann'' ''p-jam'' (quantity_or_1 None)
           (remote ann_sys_read_fault)))) = Inl (Error ''request failed'')
   \<and> fst (addToCart store_api (Some ''ann'') ''p-jam'' None ann_sys_read_fault) = Inr ()
   \<and> items (snd (addToCart store_api (Some ''ann'') ''p-jam'' None ann_sys_read_fault))
       = items ann_sys_read_fault
   \<and> fst (api_removeFromCart store_api ''row-p-mug'' (remote ann_sys_read_fault)) = Inr ()
   \<and> fst (removeFromCart store_api (Some ''ann'') ''row-p-mug'' ann_sys_read_fault) = Inr ()
   \<and> items (snd (removeFromCart store_api (Some ''ann'') ''row-p-mug'' ann_sys_read_fault))
       = items ann_sys_read_fault
   \<and> fst (updateQuantity store_api (Some ''ann'') ''row-p-mug'' 5 ann_sys_read_fault) = Inr ()
   \<and> items (snd (updateQuantity store_api (Some ''ann'') ''row-p-mug'' 5 ann_sys_read_fault))
       = items ann_sys_read_fault"
proof -
  let ?jam = "new_row ''ann'' ''p-jam'' 1"
  let ?mug5 = "row_mug\<lparr>quantity := 5\<rparr>"
  have a1: "fst (api_addToCart store_api ''ann'' ''p-jam'' (quantity_or_1 None) (remote ann_sys))
      = Inr ()"
    and r1: "fst (api_removeFromCart store_api ''row-p-mug'' (remote ann_sys)) = Inr ()"
    and u1: "fst (if (5::int) \<le> 0 then api_removeFromCart store_api ''row-p-mug'' (remote ann_sys)
              else api_updateCartItem store_api ''row-p-mug'' 5 (remote ann_sys)) = Inr ()"
    by (simp_all add: store_defs)
  have a2: "api_getCartItems store_api ''ann''
        (snd (api_addToCart store_api ''ann'' ''p-jam'' (quantity_or_1 None) (remote ann_sys)))
      = (Inr (Some [row_tea, row_mug, ?jam]),
         \<lparr>rows = [row_tea, row_mug, ?jam], read_faults = 0, write_faults = 0\<rparr>)"
    by (simp add: store_defs quantity_or_1_def)
  have a3: "fst (api_getCartItems store_api ''ann''
        \<lparr>rows = [row_tea, row_mug, ?jam], read_faults = 0, write_faults = 0\<rparr>)
      = Inr (Some [row_tea, row_mug, ?jam])"
    by (simp add: store_defs)
  have r2: "api_getCartItems store_api ''ann''
        (snd (api_removeFromCart store_api ''row-p-mug'' (remote ann_sys)))
      = (Inr (Some [row_tea]), \<lparr>rows = [row_tea], read_faults = 0, write_faults = 0\<rparr>)"
    by (simp add: store_defs)
  have r3: "fst (api_getCartItems store_api ''ann''
        \<lparr>rows = [row_tea], read_faults = 0, write_faults = 0\<rparr>) = Inr (Some [row_tea])"
    by (simp add: store_defs)
  have u2: "api_getCartItems store_api ''ann''
        (snd (if (5::int) \<le> 0 then api_removeFromCart store_api ''row-p-mug'' (remote ann_sys)
              else api_updateCartItem store_api ''row-p-mug'' 5 (remote ann_sys)))
      = (Inr (Some [row_tea, ?mug5]),
         \<lparr>rows = [row_tea, ?mug5], read_faults = 0, write_faults = 0\<rparr>)"
    by (simp add: store_defs)
  have u3: "fst (api_getCartItems store_api ''ann''
        \<lparr>rows = [row_tea, ?mug5], read_faults = 0, write_faults = 0\<rparr>)
      = Inr (Some [row_tea, ?mug5])"
    by (simp add: store_defs)
  have f1: "fst (api_addToCart store_api ''ann'' ''p-jam'' (quantity_or_1 None)
        (remote ann_sys_read_fault)) = Inr ()"
    and g1: "fst (api_removeFromCart store_api ''row-p-mug'' (remote ann_sys_read_fault)) = Inr ()"
    and h1: "fst (if (5::int) \<le> 0
          then api_removeFromCart store_api ''row-p-mug'' (remote ann_sys_read_fault)
          else api_updateCartItem store_api ''row-p-mug'' 5 (remote ann_sys_read_fault)) = Inr ()"
    by (simp_all add: store_defs)
  have f2: "fst (api_getCartItems store_api ''ann''
        (snd (api_addToCart store_api ''ann'' ''p-jam'' (quantity_or_1 None)
           (remote ann_sys_read_fault)))) = Inl (Error ''request failed'')"
    and g2: "fst (api_getCartItems store_api ''ann''
        (snd (api_removeFromCart store_api ''row-p-mug'' (remote ann_sys_read_fault))))
      = Inl (Error ''request failed'')"
    and h2: "fst (api_getCartItems store_api ''ann''
        (snd (if (5::int) \<le> 0
          then api_removeFromCart store_api ''row-p-mug'' (remote ann_sys_read_fault)
          else api_updateCartItem store_api ''row-p-mug'' 5 (remote ann_sys_read_fault))))
      = Inl (Error ''request failed'')"
    by (simp_all add: store_defs quantity_or_1_def)
  note inst = mutation_reconciles [where api = store_api and u = "''ann''" and p = "''p-jam''"
      and q = None and i = "''row-p-mug''" and n = 5]
  from a1 a2 a3 inst [where s = ann_sys and r = "Some [row_tea, row_mug, ?jam]"
      and w = "\<lparr>rows = [row_tea, row_mug, ?jam], read_faults = 0, write_faults = 0\<rparr>"]
  have A: "fst (addToCart store_api (Some ''ann'') ''p-jam'' None ann_sys) = Inr ()
      \<and> items (snd (addToCart store_api (Some ''ann'') ''p-jam'' None ann_sys))
        = [row_tea, row_mug, ?jam]
      \<and> in_sync store_api ''ann'' (snd (addToCart store_api (Some ''ann'') ''p-jam'' None ann_sys))"
    by (simp add: or_empty_def)
  from r1 r2 r3 inst [where s = ann_sys and r = "Some [row_tea]"
      and w = "\<lparr>rows = [row_tea], read_faults = 0, write_faults = 0\<rparr>"]
  have R: "fst (removeFromCart store_api (Some ''ann'') ''row-p-mug'' ann_sys) = Inr ()
      \<and> items (snd (removeFromCart store_api (Some ''ann'') ''row-p-mug'' ann_sys)) = [row_tea]
      \<and> in_sync store_api ''ann'' (snd (removeFromCart store_api (Some ''ann'') ''row-p-mug'' ann_sys))"
    by (simp add: or_empty_def)
  from u1 u2 u3 inst [where s = ann_sys and r = "Some [row_tea, ?mug5]"
      and w = "\<lparr>rows = [row_tea, ?mug5], read_faults = 0, write_faults = 0\<rparr>"]
  have U: "fst (updateQuantity store_api (Some ''ann'') ''row-p-mug'' 5 ann_sys) = Inr ()
      \<and> items (snd (updateQuantity store_api (Some ''ann'') ''row-p-mug'' 5 ann_sys))
        = [row_tea, ?mug5]
      \<and> in_sync store_api ''ann'' (snd (updateQuantity store_api (Some ''ann'') ''row-p-mug'' 5 ann_sys))"
    by (simp add: or_empty_def)
  from f1 f2 g1 g2 h1 h2 inst [where s = ann_sys_read_fault and e = "Error ''request failed''"]
  have F: "fst (addToCart store_api (Some ''ann'') ''p-jam'' None ann_sys_read_fault) = Inr ()
      \<and> items (snd (addToCart store_api (Some ''ann'') ''p-jam'' None ann_sys_read_fault))
        = items ann_sys_read_fault
      \<and> fst (removeFromCart store_api (Some ''ann'') ''row-p-mug'' ann_sys_read_fault) = Inr ()
      \<and> items (snd (removeFromCart store_api (Some ''ann'') ''row-p-mug'' ann_sys_read_fault))
        = items ann_sys_read_fault
      \<and> fst (updateQuantity store_api (Some ''ann'') ''row-p-mug'' 5 ann_sys_read_fault) = Inr ()
      \<and> items (snd (updateQuantity store_api (Some ''ann'') ''row-p-mug'' 5 ann_sys_read_fault))
        = items ann_sys_read_fault"
    by simp
  from f1 f2 g1 A R U F show ?thesis
    by simp
qed

text \<open>
  C2, as stated, fails: \<^verbatim>\<open>removeFromCart\<close> and \<^verbatim>\<open>updateQuantity\<close> test no session user.
  Signed out, against a server that still holds Ann's rows, each sends its write and is
  fulfilled.
\<close>

theorem unguarded_write_counterexample:
  "fst (removeFromCart store_api None ''row-p-mug'' (initial ann_store)) = Inr ()
   \<and> calls (snd (removeFromCart store_api None ''row-p-mug'' (initial ann_store)))
       = [Call_removeFromCart ''row-p-mug'']
   \<and> fst (updateQuantity store_api None ''row-p-mug'' 5 (initial ann_store)) = Inr ()
   \<and> calls (snd (updateQuantity store_api None ''row-p-mug'' 5 (initial ann_store)))
       = [Call_updateCartItem ''row-p-mug'' 5]"
  by (simp add: removeFromCart_None updateQuantity_None initial_def store_defs)

text \<open>
  C2, amended: \<^verbatim>\<open>addToCart\<close> with no session user is rejected with the error
  \<^verbatim>\<open>User must be logged in\<close> and leaves the state as it was: no request, nothing set.
  \<^verbatim>\<open>removeFromCart\<close> and \<^verbatim>\<open>updateQuantity\<close> make no session check: with no session user
  each sends its write (\<^verbatim>\<open>removeFromCart\<close>, or \<^verbatim>\<open>updateCartItem\<close> for a positive quantity)
  as its only request, and is fulfilled or rejected as that request is.
\<close>

theorem session_check_addToCart_only:
  "addToCart api None p q s = (Inl (Error ''User must be logged in''), s)
   \<and> calls (snd (removeFromCart api None i s)) = calls s @ [Call_removeFromCart i]
   \<and> fst (removeFromCart api None i s) = fst (api_removeFromCart api i (remote s))
   \<and> calls (snd (updateQuantity api None i n s))
       = calls s @ [if n \<le> 0 then Call_removeFromCart i else Call_updateCartItem i n]
   \<and> fst (updateQuantity api None i n s)
       = fst (if n \<le> 0 then api_removeFromCart api i (remote s)
              else api_updateCartItem api i n (remote s))"
proof (cases "n \<le> 0")
  case True
  then have "updateQuantity api None i n s = removeFromCart api None i s"
    by (simp add: updateQuantity_def)
  with True show ?thesis
    by (simp add: addToCart_None removeFromCart_None)
next
  case False
  then have "0 < n" by simp
  from updateQuantity_None [OF this] False show ?thesis
    by (simp add: addToCart_None removeFromCart_None)
qed

text \<open>
  C3: \<^verbatim>\<open>updateQuantity\<close> with a quantity of 0 or less is \<^verbatim>\<open>removeFromCart\<close> of the same
  item: the same outcome in the same state, so the same requests and the same error.
\<close>

theorem updateQuantity_nonpositive:
  assumes "qty \<le> 0"
  shows "updateQuantity api user itemId qty s = removeFromCart api user itemId s"
  using assms by (simp add: updateQuantity_def)

theorem updateQuantity_nonpositive_witness:
  "updateQuantity store_api (Some ''ann'') ''row-p-mug'' 0 ann_sys
     = removeFromCart store_api (Some ''ann'') ''row-p-mug'' ann_sys
   \<and> updateQuantity store_api (Some ''ann'') ''row-p-mug'' (- 1) ann_sys
     = removeFromCart store_api (Some ''ann'') ''row-p-mug'' ann_sys
   \<and> updateQuantity store_api None ''row-p-mug'' (- 1) ann_sys_write_fault
     = removeFromCart store_api None ''row-p-mug'' ann_sys_write_fault
   \<and> items (snd (updateQuantity store_api (Some ''ann'') ''row-p-mug'' 0 ann_sys)) = [row_tea]
   \<and> calls (snd (updateQuantity store_api (Some ''ann'') ''row-p-mug'' 0 ann_sys))
     = [Call_removeFromCart ''row-p-mug'', Call_getCartItems ''ann'']"
proof -
  have ok: "api_removeFromCart store_api ''row-p-mug'' (remote ann_sys)
      = (Inr (), ann_store\<lparr>rows := [row_tea]\<rparr>)"
    by (simp add: store_defs)
  have rd: "api_getCartItems store_api ''ann''
      (remote (ann_sys\<lparr>remote := ann_store\<lparr>rows := [row_tea]\<rparr>,
         calls := calls ann_sys @ [Call_removeFromCart ''row-p-mug'']\<rparr>))
      = (Inr (Some [row_tea]), ann_store\<lparr>rows := [row_tea]\<rparr>)"
    by (simp add: store_defs)
  have "removeFromCart store_api (Some ''ann'') ''row-p-mug'' ann_sys
      = (Inr (), ann_sys\<lparr>items := [row_tea], loading := False,
           remote := ann_store\<lparr>rows := [row_tea]\<rparr>,
           calls := [Call_removeFromCart ''row-p-mug'', Call_getCartItems ''ann'']\<rparr>)"
    by (simp add: removeFromCart_write_ok [OF ok] refreshCart_read_ok [OF rd] or_empty_def)
       (simp add: ann_sys_def)
  with updateQuantity_nonpositive [of 0 store_api "Some ''ann''" "''row-p-mug''" ann_sys]
    updateQuantity_nonpositive [of "- 1" store_api "Some ''ann''" "''row-p-mug''" ann_sys]
    updateQuantity_nonpositive [of "- 1" store_api None "''row-p-mug''" ann_sys_write_fault]
  show ?thesis
    by simp
qed

text \<open>
  C4: with a session user, a \<^verbatim>\<open>refreshCart\<close> whose read fails ends fulfilled (the error
  is logged, not rethrown) with the local items as they were and the busy flag down.
\<close>

theorem refreshCart_read_failure:
  assumes "fst (api_getCartItems api u (remote s)) = Inl e"
  shows "fst (refreshCart api (Some u) s) = Inr ()
    \<and> items (snd (refreshCart api (Some u) s)) = items s
    \<and> loading (snd (refreshCart api (Some u) s)) = False
    \<and> console (snd (refreshCart api (Some u) s)) = console s @ [(''Error fetching cart:'', e)]"
proof -
  from assms obtain w where "api_getCartItems api u (remote s) = (Inl e, w)"
    by (cases "api_getCartItems api u (remote s)") simp
  then show ?thesis
    by (simp add: refreshCart_read_failed)
qed

theorem refreshCart_read_failure_witness:
  "fst (api_getCartItems store_api ''ann'' (remote ann_sys_read_fault)) = Inl (Error ''request failed'')
   \<and> fst (refreshCart store_api (Some ''ann'') ann_sys_read_fault) = Inr ()
   \<and> items (snd (refreshCart store_api (Some ''ann'') ann_sys_read_fault)) = [row_tea, row_mug]
   \<and> loading (snd (refreshCart store_api (Some ''ann'') ann_sys_read_fault)) = False"
proof -
  have h: "fst (api_getCartItems store_api ''ann'' (remote ann_sys_read_fault))
      = Inl (Error ''request failed'')"
    by (simp add: store_defs)
  have "items ann_sys_read_fault = [row_tea, row_mug]"
    by (simp add: ann_sys_read_fault_def ann_sys_def)
  with h refreshCart_read_failure [OF h] show ?thesis
    by simp
qed

text \<open>
  C5: \<^verbatim>\<open>refreshCart\<close> with no session user ends fulfilled with the local items emptied;
  it sends no request, and the busy flag, the remote and the console are as before. A
  session change to no user is this refresh.
\<close>

theorem refreshCart_no_user:
  "refreshCart api None s = (Inr (), s\<lparr>items := []\<rparr>)
   \<and> items (snd (refreshCart api None s)) = []
   \<and> calls (snd (refreshCart api None s)) = calls s
   \<and> loading (snd (refreshCart api None s)) = loading s
   \<and> remote (snd (refreshCart api None s)) = remote s
   \<and> console (snd (refreshCart api None s)) = console s
   \<and> dispatch api (user, s) (SessionChange None) = (None, s\<lparr>items := []\<rparr>)"
  by (simp add: refreshCart_None)

text \<open>
  C6: \<^verbatim>\<open>getTotalItems\<close> is the sum of the quantities of the local items, 0 when there
  are none. It is a function of the state to a number: it has no effect.
\<close>

theorem getTotalItems_sum:
  "getTotalItems s = sum_list (map quantity (items s))
   \<and> getTotalItems (s\<lparr>items := []\<rparr>) = 0"
  by (simp add: getTotalItems_def foldl_plus_sum_list)

text \<open>
  C7, as stated, fails: the products and sums are binary64 operations, each rounded.
  For three sweets at 0.10 \<^verbatim>\<open>getTotalPrice\<close> returns 0.30000000000000004, which is
  neither price times quantity nor the double that 0.30 is read as.
\<close>

theorem getTotalPrice_rounds_counterexample:
  "round_number (1 / 10) = price sweet
   \<and> getTotalPrice bob_sys = Finite (1351079888211149 / 2 ^ 52)
   \<and> exact_total bob_sys = 10808639105689191 / 2 ^ 55
   \<and> getTotalPrice bob_sys \<noteq> Finite (exact_total bob_sys)
   \<and> getTotalPrice bob_sys \<noteq> round_number (3 / 10)"
proof -
  have tenth: "round_number (1 / 10) = Finite (3602879701896397 / 2 ^ 55)"
  proof -
    have "round_half_even (36028797018963968 / 5) = 7205759403792794"
      using round_half_even_divide [of 5 36028797018963968] by simp
    with round_number_eval [of "- 4" "1 / 10"] show ?thesis
      by (simp add: power_int_minus)
  qed
  have three_tenths: "round_number (3 / 10) = Finite (5404319552844595 / 2 ^ 54)"
  proof -
    have "round_half_even (27021597764222976 / 5) = 5404319552844595"
      using round_half_even_divide [of 5 27021597764222976] by simp
    with round_number_eval [of "- 2" "3 / 10"] show ?thesis
      by (simp add: power_int_minus)
  qed
  have product: "round_number (3602879701896397 / 2 ^ 55 * 3) = Finite (1351079888211149 / 2 ^ 52)"
  proof -
    have "round_half_even (10808639105689191 / 2) = 5404319552844596"
      using round_half_even_divide [of 2 10808639105689191] by simp
    with round_number_eval [of "- 2" "3602879701896397 / 2 ^ 55 * 3"] show ?thesis
      by (simp add: power_int_minus)
  qed
  have sum: "round_number (1351079888211149 / 2 ^ 52) = Finite (1351079888211149 / 2 ^ 52)"
    using round_number_exact [of 1351079888211149 "- 52"] by (simp add: power_int_minus)
  have three: "to_number 3 = Finite 3"
    using to_number_exact [of 3] by simp
  have p: "price_or_0 row_sweet = Finite (3602879701896397 / 2 ^ 55)"
    by (simp add: price_or_0_def row_sweet_def sweet_def)
  have q: "quantity row_sweet = 3"
    by (simp add: row_sweet_def)
  have total: "getTotalPrice bob_sys = Finite (1351079888211149 / 2 ^ 52)"
    using product sum
    by (simp add: getTotalPrice_def bob_sys_def p q three)
  have exact: "exact_total bob_sys = 10808639105689191 / 2 ^ 55"
    by (simp add: exact_total_def line_total_def bob_sys_def p q)
  from tenth three_tenths total exact show ?thesis
    by (simp add: sweet_def)
qed

text \<open>
  C7, amended: \<^verbatim>\<open>getTotalPrice\<close> returns the sum over the local items, in their order
  and from 0, of price times quantity as JavaScript computes it: every product and
  every partial sum is rounded to the nearest double, ties to even. The result is the
  exact sum when nothing needs rounding. An item with no product counts with price 0
  and, for a quantity below \<open>2 ^ 53\<close> in magnitude, leaves the total as it is. The
  function is a function of the state to a number: it neither fails nor has an effect.
\<close>

theorem getTotalPrice_binary64:
  "getTotalPrice (s\<lparr>items := []\<rparr>) = Finite 0
   \<and> getTotalPrice (s\<lparr>items := xs @ [item]\<rparr>)
       = fadd (getTotalPrice (s\<lparr>items := xs\<rparr>))
           (fmul (price_or_0 item) (to_number (quantity item)))
   \<and> is_double (getTotalPrice s)
   \<and> (unrounded 0 (items s) \<longrightarrow> getTotalPrice s = Finite (exact_total s))
   \<and> (\<bar>quantity item\<bar> < 2 ^ 53 \<longrightarrow>
        getTotalPrice (s\<lparr>items := xs @ [item\<lparr>product := None\<rparr>] @ ys\<rparr>)
          = getTotalPrice (s\<lparr>items := xs @ ys\<rparr>))"
  using getTotalPrice_snoc [where s = s and xs = xs and item = item]
    is_double_getTotalPrice [of s]
    getTotalPrice_unrounded [of s]
    getTotalPrice_skips_no_product [where item = item and s = s and xs = xs and ys = ys]
  by (simp add: getTotalPrice_def)

theorem getTotalPrice_binary64_witness:
  "unrounded 0 (items ann_sys)
   \<and> getTotalPrice ann_sys = Finite 5
   \<and> exact_total ann_sys = 5
   \<and> \<bar>quantity row_mug\<bar> < 2 ^ 53
   \<and> getTotalPrice (ann_sys\<lparr>items := [row_tea] @ [row_mug\<lparr>product := None\<rparr>] @ [row_tea]\<rparr>)
       = getTotalPrice (ann_sys\<lparr>items := [row_tea] @ [row_tea]\<rparr>)"
proof -
  have r0: "round_number 0 = Finite 0" by (rule round_number_0)
  have r5: "round_number 5 = Finite 5" using round_number_of_int [of 5] by simp
  have n2: "to_number 2 = Finite 2" using to_number_exact [of 2] by simp
  have n3: "to_number 3 = Finite 3" using to_number_exact [of 3] by simp
  have pt: "price_or_0 row_tea = Finite (5 / 2)"
    by (simp add: price_or_0_def row_tea_def tea_def)
  have pm: "price_or_0 row_mug = Finite 0"
    by (simp add: price_or_0_def row_mug_def)
  have qt: "quantity row_tea = 2" and qm: "quantity row_mug = 3"
    by (simp_all add: row_tea_def row_mug_def)
  have i: "items ann_sys = [row_tea, row_mug]" by (simp add: ann_sys_def)
  have u: "unrounded 0 (items ann_sys)"
    by (simp add: i pt pm qt qm n2 n3 r0 r5)
  have e: "exact_total ann_sys = 5"
    by (simp add: exact_total_def line_total_def i pt pm qt qm)
  have q: "\<bar>quantity row_mug\<bar> < 2 ^ 53" by (simp add: qm)
  note inst = getTotalPrice_binary64 [where s = ann_sys and item = row_mug
      and xs = "[row_tea]" and ys = "[row_tea]"]
  from u e q inst show ?thesis
    by simp
qed

text \<open>
  C8: \<^verbatim>\<open>clearCart\<close> empties the local items and nothing else: no request is sent, and
  the busy flag, the remote (the server's rows) and the console are unchanged.
\<close>

theorem clearCart_local_only:
  "clearCart s = s\<lparr>items := []\<rparr>
   \<and> items (clearCart s) = []
   \<and> loading (clearCart s) = loading s
   \<and> remote (clearCart s) = remote s
   \<and> calls (clearCart s) = calls s
   \<and> console (clearCart s) = console s"
  by (simp add: clearCart_def)

text \<open>
  C9, as stated, fails: \<^verbatim>\<open>refreshCart\<close> and \<^verbatim>\<open>addToCart\<close> with no session user return
  before touching the busy flag (lines 34-37 and 55). While a request of Ann's is
  pending she signs out: the refresh of the effect completes, and so does an
  \<^verbatim>\<open>addToCart\<close> after it, with the flag still raised.
\<close>

theorem busy_flag_left_raised_counterexample:
  "loading ann_sys_pending = True
   \<and> fst (refreshCart store_api None ann_sys_pending) = Inr ()
   \<and> loading (snd (refreshCart store_api None ann_sys_pending)) = True
   \<and> fst (addToCart store_api None ''p-jam'' None ann_sys_pending)
       = Inl (Error ''User must be logged in'')
   \<and> loading (snd (addToCart store_api None ''p-jam'' None ann_sys_pending)) = True"
  by (simp add: refreshCart_None addToCart_None ann_sys_pending_def setLoading_def)

text \<open>
  C9, amended: every operation that raises the busy flag lowers it before it completes,
  whatever the outcome and whatever the state it started in: \<^verbatim>\<open>refreshCart\<close> and
  \<^verbatim>\<open>addToCart\<close> with a session user, \<^verbatim>\<open>updateQuantity\<close> and \<^verbatim>\<open>removeFromCart\<close> with or
  without one. \<^verbatim>\<open>refreshCart\<close> and \<^verbatim>\<open>addToCart\<close> with no session user leave the flag as
  they found it.
\<close>

theorem busy_flag_cleared:
  "loading (snd (refreshCart api (Some u) s)) = False
   \<and> loading (snd (addToCart api (Some u) p q s)) = False
   \<and> loading (snd (updateQuantity api user i n s)) = False
   \<and> loading (snd (removeFromCart api user i s)) = False
   \<and> loading (snd (refreshCart api None s)) = loading s
   \<and> loading (snd (addToCart api None p q s)) = loading s"
  by (simp add: refreshCart_user_idle addToCart_user_idle updateQuantity_idle
      removeFromCart_idle refreshCart_None addToCart_None)

text \<open>
  C10: when the remote write of a mutating operation fails, the operation is rejected
  with that error, the write is the only request it sent (no refresh), the local items
  are the ones held before, and the busy flag is down. For \<^verbatim>\<open>addToCart\<close> the write is
  reached with a session user; for \<^verbatim>\<open>updateQuantity\<close> the write is \<^verbatim>\<open>updateCartItem\<close>
  when the quantity is positive and \<^verbatim>\<open>removeFromCart\<close> otherwise.
\<close>

theorem write_failure_rethrown:
  "(fst (api_addToCart api u p (quantity_or_1 q) (remote s)) = Inl e \<longrightarrow>
      fst (addToCart api (Some u) p q s) = Inl e
      \<and> items (snd (addToCart api (Some u) p q s)) = items s
      \<and> calls (snd (addToCart api (Some u) p q s))
          = calls s @ [Call_addToCart u p (quantity_or_1 q)])
   \<and> (fst (api_removeFromCart api i (remote s)) = Inl e \<longrightarrow>
      fst (removeFromCart api user i s) = Inl e
      \<and> items (snd (removeFromCart api user i s)) = items s
      \<and> calls (snd (removeFromCart api user i s)) = calls s @ [Call_removeFromCart i])
   \<and> (0 < n \<and> fst (api_updateCartItem api i n (remote s)) = Inl e \<longrightarrow>
      fst (updateQuantity api user i n s) = Inl e
      \<and> items (snd (updateQuantity api user i n s)) = items s
      \<and> calls (snd (updateQuantity api user i n s)) = calls s @ [Call_updateCartItem i n])
   \<and> (n \<le> 0 \<and> fst (api_removeFromCart api i (remote s)) = Inl e \<longrightarrow>
      fst (updateQuantity api user i n s) = Inl e
      \<and> items (snd (updateQuantity api user i n s)) = items s
      \<and> calls (snd (updateQuantity api user i n s)) = calls s @ [Call_removeFromCart i])"
proof -
  have add: "fst (addToCart api (Some u) p q s) = Inl e
      \<and> items (snd (addToCart api (Some u) p q s)) = items s
      \<and> calls (snd (addToCart api (Some u) p q s))
          = calls s @ [Call_addToCart u p (quantity_or_1 q)]"
    if "fst (api_addToCart api u p (quantity_or_1 q) (remote s)) = Inl e"
  proof -
    from that obtain w' where "api_addToCart api u p (quantity_or_1 q) (remote s) = (Inl e, w')"
      by (cases "api_addToCart api u p (quantity_or_1 q) (remote s)") simp
    then show ?thesis
      by (simp add: addToCart_write_failed)
  qed
  have remove: "fst (removeFromCart api user i s) = Inl e
      \<and> items (snd (removeFromCart api user i s)) = items s
      \<and> calls (snd (removeFromCart api user i s)) = calls s @ [Call_removeFromCart i]"
    if "fst (api_removeFromCart api i (remote s)) = Inl e"
  proof -
    from that obtain w' where "api_removeFromCart api i (remote s) = (Inl e, w')"
      by (cases "api_removeFromCart api i (remote s)") simp
    then show ?thesis
      by (simp add: removeFromCart_write_failed)
  qed
  have update: "fst (updateQuantity api user i n s) = Inl e
      \<and> items (snd (updateQuantity api user i n s)) = items s
      \<and> calls (snd (updateQuantity api user i n s)) = calls s @ [Call_updateCartItem i n]"
    if "0 < n" and "fst (api_updateCartItem api i n (remote s)) = Inl e"
  proof -
    from that obtain w' where "api_updateCartItem api i n (remote s) = (Inl e, w')"
      by (cases "api_updateCartItem api i n (remote s)") simp
    with \<open>0 < n\<close> show ?thesis
      by (simp add: updateQuantity_write_failed)
  qed
  have delegate: "updateQuantity api user i n s = removeFromCart api user i s" if "n \<le> 0"
    using that by (simp add: updateQuantity_def)
  from add remove update delegate show ?thesis
    by presburger
qed

theorem write_failure_rethrown_witness:
  "fst (api_addToCart store_api ''ann'' ''p-jam'' (quantity_or_1 None) (remote ann_sys_write_fault))
     = Inl (Error ''request failed'')
   \<and> fst (addToCart store_api (Some ''ann'') ''p-jam'' None ann_sys_write_fault)
     = Inl (Error ''request failed'')
   \<and> items (snd (addToCart store_api (Some ''ann'') ''p-jam'' None ann_sys_write_fault))
     = [row_tea, row_mug]
   \<and> fst (api_removeFromCart store_api ''row-p-mug'' (remote ann_sys_write_fault))
     = Inl (Error ''request failed'')
   \<and> fst (removeFromCart store_api (Some ''ann'') ''row-p-mug'' ann_sys_write_fault)
     = Inl (Error ''request failed'')
   \<and> items (snd (removeFromCart store_api (Some ''ann'') ''row-p-mug'' ann_sys_write_fault))
     = [row_tea, row_mug]
   \<and> fst (api_updateCartItem store_api ''row-p-mug'' 7 (remote ann_sys_write_fault))
     = Inl (Error ''request failed'')
   \<and> fst (updateQuantity store_api (Some ''ann'') ''row-p-mug'' 7 ann_sys_write_fault)
     = Inl (Error ''request failed'')
   \<and> items (snd (updateQuantity store_api (Some ''ann'') ''row-p-mug'' 7 ann_sys_write_fault))
     = [row_tea, row_mug]
   \<and> calls (snd (updateQuantity store_api (Some ''ann'') ''row-p-mug'' 7 ann_sys_write_fault))
     = [Call_updateCartItem ''row-p-mug'' 7]
   \<and> fst (updateQuantity store_api (Some ''ann'') ''row-p-mug'' 0 ann_sys_write_fault)
     = Inl (Error ''request failed'')
   \<and> items (snd (updateQuantity store_api (Some ''ann'') ''row-p-mug'' 0 ann_sys_write_fault))
     = [row_tea, row_mug]
   \<and> calls (snd (updateQuantity store_api (Some ''ann'') ''row-p-mug'' 0 ann_sys_write_fault))
     = [Call_removeFromCart ''row-p-mug'']"
proof -
  have a: "fst (api_addToCart store_api ''ann'' ''p-jam'' (quantity_or_1 None)
      (remote ann_sys_write_fault)) = Inl (Error ''request failed'')"
    by (simp add: store_defs)
  have r: "fst (api_removeFromCart store_api ''row-p-mug'' (remote ann_sys_write_fault))
      = Inl (Error ''request failed'')"
    by (simp add: store_defs)
  have u: "fst (api_updateCartItem store_api ''row-p-mug'' 7 (remote ann_sys_write_fault))
      = Inl (Error ''request failed'')"
    by (simp add: store_defs)
  have i: "items ann_sys_write_fault = [row_tea, row_mug]"
    and c: "calls ann_sys_write_fault = []"
    by (simp_all add: ann_sys_write_fault_def ann_sys_def)
  from a r u i c
    write_failure_rethrown [where api = store_api and u = "''ann''" and p = "''p-jam''"
      and q = None and s = ann_sys_write_fault and e = "Error ''request failed''"
      and i = "''row-p-mug''" and user = "Some ''ann''" and n = 7]
    write_failure_rethrown [where api = store_api and u = "''ann''" and p = "''p-jam''"
      and q = None and s = ann_sys_write_fault and e = "Error ''request failed''"
      and i = "''row-p-mug''" and user = "Some ''ann''" and n = 0]
  show ?thesis
    by simp
qed

end
